theory Spec2Isabelle
  imports Complex_Main
begin

section \<open>JavaScript values\<close>

text \<open>
  A JavaScript number is modelled as a real: every arithmetic operation is the exact one,
  and a number is never NaN or infinite. A division by zero, an infinity or NaN in
  JavaScript, is 0 in HOL; the source divides by a cosine that vanishes only at a
  latitude of exactly 90 degrees north or south, with the sun exactly at the zenith or
  the nadir, or at an altitude that no arcsine returns. A string is the list of its
  UTF-16 code units,
  so that the Cyrillic keywords of the source are lists of numbers. A \<open>Date\<close> is its
  time value, the whole number of milliseconds since the epoch; \<open>new Date(ms)\<close>
  truncates towards zero.
\<close>

type_synonym jsstring = "nat list"

definition js_trunc :: "real \<Rightarrow> int" where
  "js_trunc x = (if 0 \<le> x then \<lfloor>x\<rfloor> else \<lceil>x\<rceil>)"

text \<open>The remainder operator \<open>x % y\<close>: the result has the sign of \<open>x\<close>.\<close>

definition js_rem :: "real \<Rightarrow> real \<Rightarrow> real" where
  "js_rem x y = x - y * of_int (js_trunc (x / y))"

text \<open>\<open>Math.round\<close> rounds to the nearest integer, a half towards plus infinity.\<close>

definition Math_round :: "real \<Rightarrow> real" where
  "Math_round x = of_int \<lfloor>x + 1 / 2\<rfloor>"

definition new_Date :: "real \<Rightarrow> int" where
  "new_Date ms = js_trunc ms"

definition Math_atan2 :: "real \<Rightarrow> real \<Rightarrow> real" where
  "Math_atan2 y x =
     (if 0 < x then arctan (y / x)
      else if x < 0 then (if 0 \<le> y then arctan (y / x) + pi else arctan (y / x) - pi)
      else if 0 < y then pi / 2
      else if y < 0 then - (pi / 2)
      else 0)"

fun startsWith :: "jsstring \<Rightarrow> jsstring \<Rightarrow> bool" where
  "startsWith s [] = True"
| "startsWith [] (k # ks) = False"
| "startsWith (c # cs) (k # ks) = (c = k \<and> startsWith cs ks)"

text \<open>\<open>s.includes(k)\<close>: the keyword occurs in the string as a contiguous run.\<close>

fun str_includes :: "jsstring \<Rightarrow> jsstring \<Rightarrow> bool" where
  "str_includes [] k = (k = [])"
| "str_includes (c # cs) k = (startsWith (c # cs) k \<or> str_includes cs k)"

text \<open>
  \<open>toLowerCase\<close> on the code units of the Latin and the Cyrillic alphabet, the two
  scripts of the keywords; every other code unit is left as it is.
\<close>

definition lowerUnit :: "nat \<Rightarrow> nat" where
  "lowerUnit c =
     (if 65 \<le> c \<and> c \<le> 90 then c + 32
      else if 1040 \<le> c \<and> c \<le> 1071 then c + 32
      else if 1024 \<le> c \<and> c \<le> 1039 then c + 80
      else c)"

definition toLowerCase :: "jsstring \<Rightarrow> jsstring" where
  "toLowerCase s = map lowerUnit s"

definition ascii :: "string \<Rightarrow> jsstring" where
  "ascii s = map (\<lambda>c. of_char c) s"

text \<open>The keywords the scorer looks for, in the order of their first use.\<close>

definition kw_yasno :: jsstring where "kw_yasno = [1103, 1089, 1085, 1086]"
definition kw_clear :: jsstring where "kw_clear = [99, 108, 101, 97, 114]"
definition kw_solnechno :: jsstring where
  "kw_solnechno = [1089, 1086, 1083, 1085, 1077, 1095, 1085, 1086]"
definition kw_sunny :: jsstring where "kw_sunny = [115, 117, 110, 110, 121]"
definition kw_peremennaya :: jsstring where
  "kw_peremennaya = [1087, 1077, 1088, 1077, 1084, 1077, 1085, 1085, 1072, 1103]"
definition kw_partly :: jsstring where "kw_partly = [112, 97, 114, 116, 108, 121]"
definition kw_dozhd :: jsstring where "kw_dozhd = [1076, 1086, 1078, 1076, 1100]"
definition kw_rain :: jsstring where "kw_rain = [114, 97, 105, 110]"
definition kw_legkiy :: jsstring where "kw_legkiy = [1083, 1077, 1075, 1082, 1080, 1081]"
definition kw_light :: jsstring where "kw_light = [108, 105, 103, 104, 116]"
definition kw_tuman :: jsstring where "kw_tuman = [1090, 1091, 1084, 1072, 1085]"
definition kw_mist :: jsstring where "kw_mist = [109, 105, 115, 116]"

section \<open>SunCalculator\<close>

text \<open>
  \<open>services/SunCalculator.js\<close>. The eccentricity and the equation of time are computed
  by the source and never used; they are left out.
\<close>

record sunPosition =
  altitude :: real
  azimuth :: real
  declination :: real
  rightAscension :: real
  julianDay :: real
  gmst :: real
  hourAngle :: real

text \<open>
  A field the source leaves out of the object it returns, and a field it sets to
  \<open>null\<close>, are both \<open>None\<close>.
\<close>

record solarEvents =
  sunrise :: "int option"
  sunset :: "int option"
  solarNoon :: int
  civilDawn :: "int option"
  civilDusk :: "int option"
  nauticalDawn :: "int option"
  nauticalDusk :: "int option"
  astronomicalDawn :: "int option"
  astronomicalDusk :: "int option"
  isPolarNight :: bool
  isPolarDay :: bool

definition DEGREES_TO_RADIANS :: real where
  "DEGREES_TO_RADIANS = pi / 180"

definition RADIANS_TO_DEGREES :: real where
  "RADIANS_TO_DEGREES = 180 / pi"

definition J2000 :: real where
  "J2000 = 2451545"

definition getJulianDay :: "int \<Rightarrow> real" where
  "getJulianDay t = of_int t / 86400000 + 2440587.5"

text \<open>\<open>while (x > 360) x -= 360;\<close> and \<open>while (x < 0) x += 360;\<close>\<close>

function whileAbove360 :: "real \<Rightarrow> real" where
  "whileAbove360 x = (if x > 360 then whileAbove360 (x - 360) else x)"
  by pat_completeness auto
termination
proof (relation "measure (\<lambda>x. nat \<lceil>x / 360\<rceil>)")
  show "wf (measure (\<lambda>x::real. nat \<lceil>x / 360\<rceil>))" by simp
next
  fix x :: real
  assume "360 < x"
  then have "1 < x / 360" by simp
  then have pos: "1 < \<lceil>x / 360\<rceil>" by linarith
  have "\<lceil>(x - 360) / 360\<rceil> = \<lceil>x / 360 - 1\<rceil>" by (simp add: diff_divide_distrib)
  also have "\<dots> = \<lceil>x / 360\<rceil> - 1" by simp
  finally show "(x - 360, x) \<in> measure (\<lambda>x. nat \<lceil>x / 360\<rceil>)"
    using pos by simp
qed

function whileBelow0 :: "real \<Rightarrow> real" where
  "whileBelow0 x = (if x < 0 then whileBelow0 (x + 360) else x)"
  by pat_completeness auto
termination
proof (relation "measure (\<lambda>x. nat \<lceil>- x / 360\<rceil>)")
  show "wf (measure (\<lambda>x::real. nat \<lceil>- x / 360\<rceil>))" by simp
next
  fix x :: real
  assume neg: "x < 0"
  define y where "y = - x / 360"
  have "0 < y" using neg by (simp add: y_def)
  then have pos: "0 < \<lceil>y\<rceil>" by linarith
  have "- (x + 360) / 360 = y - 1" by (simp add: y_def field_simps)
  then have "\<lceil>- (x + 360) / 360\<rceil> = \<lceil>y - 1\<rceil>" by (rule arg_cong)
  then have "\<lceil>- (x + 360) / 360\<rceil> = \<lceil>y\<rceil> - 1" by (simp only: ceiling_diff_one)
  then have "nat \<lceil>- (x + 360) / 360\<rceil> < nat \<lceil>y\<rceil>" using pos by linarith
  then show "(x + 360, x) \<in> measure (\<lambda>x. nat \<lceil>- x / 360\<rceil>)"
    unfolding y_def by (simp only: in_measure)
qed

definition getGeometricMeanLongitudeSun :: "real \<Rightarrow> real" where
  "getGeometricMeanLongitudeSun T =
     whileBelow0 (whileAbove360 (280.46646 + T * (36000.76983 + T * 0.0003032)))"

definition getSunMeanAnomaly :: "real \<Rightarrow> real" where
  "getSunMeanAnomaly T = 357.52911 + T * (35999.05029 - 0.0001537 * T)"

definition getSunEquationOfCenter :: "real \<Rightarrow> real \<Rightarrow> real" where
  "getSunEquationOfCenter T M =
     (let Mrad = M * DEGREES_TO_RADIANS
      in sin Mrad * (1.914602 - T * (0.004817 + 0.000014 * T)) +
         sin (2 * Mrad) * (0.019993 - 0.000101 * T) +
         sin (3 * Mrad) * 0.000289)"

definition getMeanObliquityOfEcliptic :: "real \<Rightarrow> real" where
  "getMeanObliquityOfEcliptic T =
     23.439291 - T * (0.0130042 + T * (0.00000016 - T * 0.000000504))"

definition getGreenwichMeanSiderealTime :: "real \<Rightarrow> real" where
  "getGreenwichMeanSiderealTime jd =
     (let T = (jd - J2000) / 36525;
          g = 280.46061837 + 360.98564736629 * (jd - J2000) +
              T * T * (0.000387933 - T / 38710000)
      in whileBelow0 (whileAbove360 g))"

definition calculateSunPosition :: "real \<Rightarrow> real \<Rightarrow> int \<Rightarrow> sunPosition" where
  "calculateSunPosition lat lon date =
     (let jd = getJulianDay date;
          T = (jd - J2000) / 36525;
          L0 = getGeometricMeanLongitudeSun T;
          M = getSunMeanAnomaly T;
          C = getSunEquationOfCenter T M;
          trueLongitude = L0 + C;
          omega = 125.04452 - 1934.136261 * T;
          lambda = trueLongitude - 0.00569 - 0.00478 * sin (omega * DEGREES_TO_RADIANS);
          epsilon = getMeanObliquityOfEcliptic T;
          decl = arcsin (sin (epsilon * DEGREES_TO_RADIANS) *
                         sin (lambda * DEGREES_TO_RADIANS)) * RADIANS_TO_DEGREES;
          ra = Math_atan2 (cos (epsilon * DEGREES_TO_RADIANS) *
                           sin (lambda * DEGREES_TO_RADIANS))
                          (cos (lambda * DEGREES_TO_RADIANS)) * RADIANS_TO_DEGREES;
          g = getGreenwichMeanSiderealTime jd;
          lst = g + lon;
          ha = lst - ra;
          latRad = lat * DEGREES_TO_RADIANS;
          decRad = decl * DEGREES_TO_RADIANS;
          haRad = ha * DEGREES_TO_RADIANS;
          sinAlt = sin latRad * sin decRad + cos latRad * cos decRad * cos haRad;
          alt = arcsin sinAlt * RADIANS_TO_DEGREES;
          cosAz = (sin decRad - sin latRad * sinAlt) / (cos latRad * cos (arcsin sinAlt));
          az0 = arccos (max (- 1) (min 1 cosAz)) * RADIANS_TO_DEGREES;
          az = (if sin haRad > 0 then 360 - az0 else az0)
      in \<lparr>altitude = alt, azimuth = az, declination = decl, rightAscension = ra,
          julianDay = jd, gmst = g, hourAngle = ha\<rparr>)"

text \<open>\<open>calculateEventForAngle\<close> returns the pair of dawn and dusk.\<close>

definition calculateEventForAngle ::
  "real \<Rightarrow> real \<Rightarrow> int \<Rightarrow> real \<Rightarrow> int option \<times> int option" where
  "calculateEventForAngle lat lon date angle =
     (let jd = getJulianDay date;
          meanSolarNoon = jd - lon / 360;
          latRad = lat * DEGREES_TO_RADIANS;
          angleRad = angle * DEGREES_TO_RADIANS;
          T = (jd - J2000) / 36525;
          L = getGeometricMeanLongitudeSun T * DEGREES_TO_RADIANS;
          epsilon = getMeanObliquityOfEcliptic T * DEGREES_TO_RADIANS;
          decl = arcsin (sin epsilon * sin L);
          cosHourAngle = (sin angleRad - sin latRad * sin decl) / (cos latRad * cos decl)
      in if \<bar>cosHourAngle\<bar> > 1 then (None, None)
         else
           (let ha = arccos cosHourAngle * RADIANS_TO_DEGREES;
                dawn = meanSolarNoon - ha / 360;
                dusk = meanSolarNoon + ha / 360
            in (Some (new_Date ((dawn - 2440587.5) * 86400000)),
                Some (new_Date ((dusk - 2440587.5) * 86400000)))))"

text \<open>
  The cosine of the sunrise hour angle, as \<open>calculateSolarEvents\<close> computes it from the
  declination at the mean solar noon.
\<close>

definition solarNoonDate :: "real \<Rightarrow> int \<Rightarrow> int" where
  "solarNoonDate lon date =
     new_Date ((getJulianDay date - lon / 360 - 2440587.5) * 86400000)"

definition cosHourAngleOf :: "real \<Rightarrow> real \<Rightarrow> int \<Rightarrow> real" where
  "cosHourAngleOf lat lon date =
     (let solarNoonPosition = calculateSunPosition lat lon (solarNoonDate lon date);
          latRad = lat * DEGREES_TO_RADIANS;
          decRad = declination solarNoonPosition * DEGREES_TO_RADIANS
      in - tan latRad * tan decRad)"

definition calculateSolarEvents :: "real \<Rightarrow> real \<Rightarrow> int \<Rightarrow> solarEvents" where
  "calculateSolarEvents lat lon date =
     (let jd = getJulianDay date;
          meanSolarNoon = jd - lon / 360;
          cosHourAngle = cosHourAngleOf lat lon date
      in if \<bar>cosHourAngle\<bar> > 1 then
           \<lparr>sunrise = None, sunset = None,
            solarNoon = new_Date ((meanSolarNoon - 2440587.5) * 86400000),
            civilDawn = None, civilDusk = None,
            nauticalDawn = None, nauticalDusk = None,
            astronomicalDawn = None, astronomicalDusk = None,
            isPolarNight = (cosHourAngle > 1), isPolarDay = (cosHourAngle < - 1)\<rparr>
         else
           (let ha = arccos cosHourAngle * RADIANS_TO_DEGREES;
                rise = meanSolarNoon - ha / 360;
                sset = meanSolarNoon + ha / 360;
                civil = calculateEventForAngle lat lon date (- 6);
                nautical = calculateEventForAngle lat lon date (- 12);
                astronomical = calculateEventForAngle lat lon date (- 18)
            in \<lparr>sunrise = Some (new_Date ((rise - 2440587.5) * 86400000)),
                sunset = Some (new_Date ((sset - 2440587.5) * 86400000)),
                solarNoon = new_Date ((meanSolarNoon - 2440587.5) * 86400000),
                civilDawn = fst civil, civilDusk = snd civil,
                nauticalDawn = fst nautical, nauticalDusk = snd nautical,
                astronomicalDawn = fst astronomical, astronomicalDusk = snd astronomical,
                isPolarNight = False, isPolarDay = False\<rparr>))"

section \<open>RainbowCalculator: data\<close>

text \<open>
  \<open>mobile-app/RainbowFinder/services/RainbowCalculator.js\<close>. The weather snapshot is the
  object of the weather service: the sub-objects the scorer dereferences (\<open>weather[0]\<close>
  and its \<open>description\<close>, \<open>main\<close>, \<open>clouds\<close>) may be missing, and reading through
  a missing one is a \<open>TypeError\<close>; the optional ones (\<open>visibility\<close>, \<open>wind\<close>,
  \<open>uvi\<close>, \<open>recentRain\<close>) are guarded by the source itself. The numbers inside
  \<open>main\<close> and \<open>clouds\<close> are present whenever the sub-object is. \<open>weather.rain\<close>
  is read into a constant that is never used, and is left out.
\<close>

record recentRainSignal =
  isOptimal :: bool
  hasRecentRain :: bool
  timeSinceRain :: "real option"

record mainData =
  humidity :: real
  temp :: real
  pressure :: real

record weatherData =
  weatherList :: "(jsstring option) list option"
  main :: "mainData option"
  cloudsAll :: "real option"
  visibility :: "real option"
  windSpeed :: "real option"
  uvi :: "real option"
  recentRain :: "recentRainSignal option"

text \<open>
  The instant is a \<open>Date\<close>: its time value and what its local-time accessors return
  in the time zone of the device (\<open>getMonth\<close> counts from 0).
\<close>

record jsDate =
  getTime :: int
  getHours :: nat
  getMinutes :: nat
  getMonth :: nat

record rainbowInput =
  latitude :: real
  longitude :: real
  weather :: "weatherData option"
  dateTime :: jsDate

datatype js_error = InsufficientData | TypeError

datatype quality = Q_none | Q_very_weak | Q_weak | Q_moderate | Q_good | Q_excellent

datatype severity = Critical | Positive

text \<open>The messages of the source are Russian sentences; each is named by its meaning.\<close>

datatype conditionMessage =
    SunBelowHorizonRainbowImpossible
  | CalculationError
  | SunBelowHorizon
  | SunTooHighForRainbow
  | IdealSunAngle
  | PrecipitationPresent
  | HighHumidity
  | VariableCloudiness
  | OptimalTimeOfDay

datatype recommendation =
    WaitForSunrise
  | RainbowOnlyByDay
  | TryRefreshingData
  | SuperConditions
  | LookInDirection real
  | RecentRainPlusSun
  | ExcellentConditions
  | DirectionIs real
  | ModerateConditions
  | WeakConditions
  | UnfavourableConditions
  | TryAfterSunset int
  | WaitForRainThenClearSky
  | RainWasLongAgo
  | WaitForSunThroughClouds

record rainbowDirection =
  center :: real
  rangeStart :: real
  rangeEnd :: real
  elevation :: real

record timeFactors =
  timeOfDayFactor :: real
  seasonalFactor :: real
  currentHour :: nat
  eventsOfDay :: solarEvents

record weatherFactors =
  rainFactor :: real
  humidityFactor :: real
  cloudFactor :: real
  visibilityFactor :: real
  windFactor :: real
  temperatureFactor :: real
  recentRainFactor :: real
  sunlightFactor :: real

record atmosphericFactors =
  lightScatteringFactor :: real
  pressureFactor :: real
  airQualityFactor :: real

record geometricFactors =
  geoLightScatteringFactor :: real
  dropletDistributionFactor :: real
  airmass :: real

datatype factorsInfo =
    ReasonSunBelowHorizon
  | ReasonCalculationError
  | Breakdown real weatherFactors atmosphericFactors timeFactors geometricFactors

record assessment =
  probability :: real
  direction :: "rainbowDirection option"
  quality :: quality
  sunPos :: "sunPosition option"
  factors :: factorsInfo
  conditions :: "(severity \<times> conditionMessage) list"
  recommendations :: "recommendation list"

section \<open>RainbowCalculator: constants and factors\<close>

definition RAINBOW_ANGLE_PRIMARY :: real where "RAINBOW_ANGLE_PRIMARY = 42"
definition CRITICAL_SUN_ANGLE :: real where "CRITICAL_SUN_ANGLE = 42"
definition OPTIMAL_SUN_ANGLES_0 :: real where "OPTIMAL_SUN_ANGLES_0 = 15"
definition OPTIMAL_SUN_ANGLES_1 :: real where "OPTIMAL_SUN_ANGLES_1 = 25"
definition RAINBOW_WIDTH :: real where "RAINBOW_WIDTH = 2"
definition MIN_HUMIDITY :: real where "MIN_HUMIDITY = 60"
definition OPTIMAL_HUMIDITY_0 :: real where "OPTIMAL_HUMIDITY_0 = 75"
definition OPTIMAL_HUMIDITY_1 :: real where "OPTIMAL_HUMIDITY_1 = 90"
definition MIN_VISIBILITY :: real where "MIN_VISIBILITY = 5000"
definition OPTIMAL_VISIBILITY :: real where "OPTIMAL_VISIBILITY = 10000"
definition MAX_WIND_SPEED :: real where "MAX_WIND_SPEED = 10"

definition calculateSunAngleFactor :: "real \<Rightarrow> real" where
  "calculateSunAngleFactor sunAltitude =
     (if sunAltitude \<le> 0 then 0
      else if sunAltitude < 5 then 0
      else if sunAltitude > CRITICAL_SUN_ANGLE then 0
      else if sunAltitude \<ge> OPTIMAL_SUN_ANGLES_0 \<and> sunAltitude \<le> OPTIMAL_SUN_ANGLES_1 then 1
      else if sunAltitude < OPTIMAL_SUN_ANGLES_0
        then 0.3 + 0.7 * (sunAltitude / OPTIMAL_SUN_ANGLES_0)
      else (let rng = CRITICAL_SUN_ANGLE - OPTIMAL_SUN_ANGLES_1;
                position = sunAltitude - OPTIMAL_SUN_ANGLES_1
            in 1 - 0.8 * (position / rng)))"

definition calculateTimeFactors :: "jsDate \<Rightarrow> solarEvents \<Rightarrow> timeFactors" where
  "calculateTimeFactors dt events =
     (let hour = getHours dt;
          minutes = getMinutes dt;
          timeDecimal = real hour + real minutes / 60;
          tod = (if (timeDecimal \<ge> 6 \<and> timeDecimal \<le> 10) \<or>
                    (timeDecimal \<ge> 16 \<and> timeDecimal \<le> 20) then 1
                 else if (timeDecimal \<ge> 10 \<and> timeDecimal \<le> 12) \<or>
                         (timeDecimal \<ge> 14 \<and> timeDecimal \<le> 16) then 0.6
                 else if (timeDecimal \<ge> 5 \<and> timeDecimal < 6) \<or>
                         (timeDecimal > 20 \<and> timeDecimal \<le> 21) then 0.4
                 else 0.1);
          month = getMonth dt + 1;
          seasonal = (if month \<ge> 4 \<and> month \<le> 9 then 1
                      else if month \<ge> 3 \<and> month \<le> 4 \<or> month \<ge> 9 \<and> month \<le> 10 then 0.9
                      else 0.8)
      in \<lparr>timeOfDayFactor = tod, seasonalFactor = seasonal, currentHour = hour,
          eventsOfDay = events\<rparr>)"

text \<open>\<open>weather.weather[0].description\<close>, or nothing when the read fails.\<close>

definition firstDescription :: "weatherData \<Rightarrow> jsstring option" where
  "firstDescription w =
     (case weatherList w of
        None \<Rightarrow> None
      | Some [] \<Rightarrow> None
      | Some (d # ds) \<Rightarrow> d)"

text \<open>\<open>null\<close> compares as the number 0.\<close>

definition numberOrNull :: "real option \<Rightarrow> real" where
  "numberOrNull t = (case t of None \<Rightarrow> 0 | Some x \<Rightarrow> x)"

text \<open>\<open>v || d\<close> on an optional number: a missing value and 0 are both falsy.\<close>

definition orDefault :: "real option \<Rightarrow> real \<Rightarrow> real" where
  "orDefault v d = (case v of None \<Rightarrow> d | Some x \<Rightarrow> (if x = 0 then d else x))"

text \<open>
  \<open>calculateWeatherFactors\<close> reads the description (line 240), \<open>weather.main\<close>
  (line 285) and \<open>weather.clouds\<close> (line 294) on every path, and each failed read
  throws the same \<open>TypeError\<close>; the three reads are made first.
\<close>

definition calculateWeatherFactors :: "weatherData \<Rightarrow> js_error + weatherFactors" where
  "calculateWeatherFactors w =
     (case firstDescription w of None \<Rightarrow> Inl TypeError | Some d \<Rightarrow>
      (case main w of None \<Rightarrow> Inl TypeError | Some m \<Rightarrow>
       (case cloudsAll w of None \<Rightarrow> Inl TypeError | Some clouds \<Rightarrow>
        (let description = toLowerCase d;
             recentRainF =
               (case recentRain w of
                  None \<Rightarrow> 0
                | Some recent \<Rightarrow>
                    if isOptimal recent then 1
                    else if hasRecentRain recent \<and> numberOrNull (timeSinceRain recent) < 2
                      then 0.8
                    else if hasRecentRain recent \<and> numberOrNull (timeSinceRain recent) < 3
                      then 0.5
                    else if hasRecentRain recent then 0.2
                    else 0);
             sunlightF =
               (if str_includes description kw_yasno \<or> str_includes description kw_clear \<or>
                   str_includes description kw_solnechno \<or> str_includes description kw_sunny
                  then 1
                else if str_includes description kw_peremennaya \<or>
                        str_includes description kw_partly then 0.8
                else if clouds < 50 then 0.7
                else if clouds < 80 then 0.4
                else 0.1);
             rainF =
               (if str_includes description kw_dozhd \<or> str_includes description kw_rain then
                  (if str_includes description kw_legkiy \<or> str_includes description kw_light
                   then 0.3 else 0.1)
                else if str_includes description kw_tuman \<or> str_includes description kw_mist
                  then 0.6
                else if humidity m > 80 then 0.4
                else 0);
             hum = humidity m;
             humidityF =
               (if hum \<ge> OPTIMAL_HUMIDITY_0 \<and> hum \<le> OPTIMAL_HUMIDITY_1 then 1
                else if hum \<ge> MIN_HUMIDITY
                  then 0.5 + 0.5 * (hum - MIN_HUMIDITY) / (OPTIMAL_HUMIDITY_0 - MIN_HUMIDITY)
                else 0);
             cloudF =
               (if clouds \<ge> 20 \<and> clouds \<le> 70 then 1
                else if clouds < 20 then 0.3
                else if clouds \<le> 85 then 0.6
                else 0.1);
             vis = orDefault (visibility w) 10000;
             visibilityF =
               (if vis \<ge> OPTIMAL_VISIBILITY then 1
                else if vis \<ge> MIN_VISIBILITY then vis / OPTIMAL_VISIBILITY
                else 0.2);
             wind = (case windSpeed w of None \<Rightarrow> 0 | Some sp \<Rightarrow> sp);
             windF =
               (if wind \<le> 3 then 1
                else if wind \<le> MAX_WIND_SPEED
                  then 1 - 0.6 * (wind - 3) / (MAX_WIND_SPEED - 3)
                else 0.2);
             temperature = temp m;
             temperatureF =
               (if temperature \<ge> 10 \<and> temperature \<le> 25 then 1
                else if temperature \<ge> 0 \<and> temperature < 10 then 0.7
                else if temperature > 25 \<and> temperature \<le> 35 then 0.8
                else 0.5)
         in Inr \<lparr>rainFactor = rainF, humidityFactor = humidityF, cloudFactor = cloudF,
                 visibilityFactor = visibilityF, windFactor = windF,
                 temperatureFactor = temperatureF, recentRainFactor = recentRainF,
                 sunlightFactor = sunlightF\<rparr>))))"

text \<open>\<open>estimateUVIndex\<close> reads \<open>weather.clouds.all\<close> without a guard.\<close>

definition estimateUVIndex :: "weatherData \<Rightarrow> real \<Rightarrow> js_error + real" where
  "estimateUVIndex w lat =
     (case cloudsAll w of
        None \<Rightarrow> Inl TypeError
      | Some cloudiness \<Rightarrow>
          (let baseUV = max 0 (10 - \<bar>lat\<bar> / 9)
           in Inr (baseUV * (1 - cloudiness / 100))))"

text \<open>
  \<open>weather.uvi || this.estimateUVIndex(weather, latitude)\<close>: the estimate is evaluated
  only when \<open>uvi\<close> is falsy, that is missing or 0.
\<close>

definition calculateAtmosphericFactors ::
  "weatherData \<Rightarrow> real \<Rightarrow> js_error + atmosphericFactors" where
  "calculateAtmosphericFactors w lat =
     (case (case uvi w of
              None \<Rightarrow> estimateUVIndex w lat
            | Some u \<Rightarrow> (if u = 0 then estimateUVIndex w lat else Inr u)) of
        Inl e \<Rightarrow> Inl e
      | Inr uvIndex \<Rightarrow>
          (case main w of
             None \<Rightarrow> Inl TypeError
           | Some m \<Rightarrow>
               Inr \<lparr>lightScatteringFactor = min 1 (uvIndex / 5),
                    pressureFactor = (if pressure m < 1000 \<or> pressure m > 1020 then 0.8 else 1),
                    airQualityFactor = 0.9\<rparr>))"

definition calculateGeometricFactors ::
  "sunPosition \<Rightarrow> weatherData \<Rightarrow> js_error + geometricFactors" where
  "calculateGeometricFactors sp w =
     (let zenithAngle = 90 - altitude sp;
          am = 1 / cos (zenithAngle * pi / 180);
          scattering = max 0.3 (1 - (am - 1) * 0.1)
      in case main w of
           None \<Rightarrow> Inl TypeError
         | Some m \<Rightarrow>
             Inr \<lparr>geoLightScatteringFactor = scattering,
                  dropletDistributionFactor =
                    (if humidity m > 70 \<and> temp m > 5 \<and> temp m < 30
                     then 0.8 + 0.2 * (humidity m - 70) / 30 else 0.5),
                  airmass = am\<rparr>)"

definition calculateBaseProbability ::
  "real \<Rightarrow> weatherFactors \<Rightarrow> atmosphericFactors \<Rightarrow> real" where
  "calculateBaseProbability sunAngleFactor wfs afs =
     (let weightedSum =
            sunAngleFactor * 0.25 +
            recentRainFactor wfs * 0.3 +
            sunlightFactor wfs * 0.2 +
            cloudFactor wfs * 0.1 +
            visibilityFactor wfs * 0.05 +
            humidityFactor wfs * 0.05 +
            rainFactor wfs * 0.03 +
            lightScatteringFactor afs * 0.02
      in weightedSum * 100)"

section \<open>RainbowCalculator: combination\<close>

text \<open>
  \<open>applyBonusesAndPenalties\<close>: the three early returns come before the weather is
  read; past them the description, \<open>weather.main\<close> and \<open>weather.clouds\<close> are read on every path.
  The bonus tests the description as it is, not its lower-case form.
\<close>

definition applyBonusesAndPenalties ::
  "real \<Rightarrow> weatherData \<Rightarrow> sunPosition \<Rightarrow> timeFactors \<Rightarrow> js_error + real" where
  "applyBonusesAndPenalties p w sp tf =
     (if altitude sp \<le> 0 then Inr 0
      else if altitude sp < 5 then Inr 0
      else
        (let hour = currentHour tf
         in if hour \<ge> 22 \<or> hour \<le> 4 then Inr 0
            else
              (case firstDescription w of None \<Rightarrow> Inl TypeError | Some d \<Rightarrow>
               (case main w of None \<Rightarrow> Inl TypeError | Some m \<Rightarrow>
                (case cloudsAll w of None \<Rightarrow> Inl TypeError | Some clouds \<Rightarrow>
                 (let p1 = (if str_includes d kw_dozhd \<and> altitude sp > 5 \<and> altitude sp < 30
                            then p * 1.2 else p);
                      p2 = (if currentHour tf \<ge> 17 \<and> currentHour tf \<le> 19
                            then p1 * 1.1 else p1);
                      p3 = (if humidity m < 50 then p2 * 0.5 else p2);
                      p4 = (if clouds > 90 then p3 * 0.3 else p3)
                  in Inr p4))))))"

text \<open>The constant field \<open>type: 'primary'\<close> of the direction is left out.\<close>

definition calculateRainbowDirection :: "sunPosition \<Rightarrow> rainbowDirection" where
  "calculateRainbowDirection sp =
     (let antiSolarAzimuth = js_rem (azimuth sp + 180) 360
      in \<lparr>center = antiSolarAzimuth,
          rangeStart = js_rem (antiSolarAzimuth - RAINBOW_WIDTH / 2 + 360) 360,
          rangeEnd = js_rem (antiSolarAzimuth + RAINBOW_WIDTH / 2) 360,
          elevation = RAINBOW_ANGLE_PRIMARY - altitude sp\<rparr>)"

definition calculateRainbowQuality :: "real \<Rightarrow> sunPosition \<Rightarrow> weatherData \<Rightarrow> quality" where
  "calculateRainbowQuality p sp w =
     (if p < 20 then Q_none
      else if p < 40 then Q_very_weak
      else if p < 60 then Q_weak
      else if p < 75 then Q_moderate
      else if p < 90 then Q_good
      else Q_excellent)"

definition analyzeConditions ::
  "sunPosition \<Rightarrow> weatherData \<Rightarrow> timeFactors \<Rightarrow>
   js_error + (severity \<times> conditionMessage) list" where
  "analyzeConditions sp w tf =
     (case firstDescription w of None \<Rightarrow> Inl TypeError | Some d \<Rightarrow>
      (case main w of None \<Rightarrow> Inl TypeError | Some m \<Rightarrow>
       (case cloudsAll w of None \<Rightarrow> Inl TypeError | Some clouds \<Rightarrow>
          Inr ((if altitude sp < 0 then [(Critical, SunBelowHorizon)]
                else if altitude sp > CRITICAL_SUN_ANGLE then [(Critical, SunTooHighForRainbow)]
                else if altitude sp \<ge> OPTIMAL_SUN_ANGLES_0 \<and>
                        altitude sp \<le> OPTIMAL_SUN_ANGLES_1 then [(Positive, IdealSunAngle)]
                else []) @
               (if str_includes d kw_dozhd then [(Positive, PrecipitationPresent)] else []) @
               (if humidity m > 80 then [(Positive, HighHumidity)] else []) @
               (if clouds > 20 \<and> clouds < 70 then [(Positive, VariableCloudiness)] else []) @
               (if timeOfDayFactor tf = 1 then [(Positive, OptimalTimeOfDay)] else [])))))"

text \<open>
  \<open>generateRecommendations\<close> reads the weather through \<open>?.\<close> only and cannot fail.
  The direction it prints is rounded; the sunset it prints is carried as the \<open>Date\<close>.
\<close>

definition generateRecommendations ::
  "real \<Rightarrow> sunPosition \<Rightarrow> weatherData \<Rightarrow> solarEvents \<Rightarrow> recommendation list" where
  "generateRecommendations p sp w events =
     (if p > 80 then
        [SuperConditions, LookInDirection (Math_round (js_rem (azimuth sp + 180) 360))] @
        (case recentRain w of
           None \<Rightarrow> []
         | Some recent \<Rightarrow> (if isOptimal recent then [RecentRainPlusSun] else []))
      else if p > 60 then
        [ExcellentConditions, DirectionIs (Math_round (js_rem (azimuth sp + 180) 360))]
      else if p > 40 then [ModerateConditions]
      else if p > 20 then [WeakConditions]
      else [UnfavourableConditions]) @
     (if altitude sp > CRITICAL_SUN_ANGLE then
        (case sunset events of None \<Rightarrow> [] | Some t \<Rightarrow> [TryAfterSunset t])
      else []) @
     (case recentRain w of
        None \<Rightarrow> []
      | Some recent \<Rightarrow>
          (if \<not> hasRecentRain recent then [WaitForRainThenClearSky]
           else if numberOrNull (timeSinceRain recent) > 2 then [RainWasLongAgo]
           else [])) @
     (case cloudsAll w of
        None \<Rightarrow> []
      | Some clouds \<Rightarrow> (if clouds > 80 then [WaitForSunThroughClouds] else []))"

text \<open>The object returned when the sun is not above the horizon (lines 47 to 57).\<close>

definition sunBelowHorizonResult :: "sunPosition \<Rightarrow> assessment" where
  "sunBelowHorizonResult sp =
     \<lparr>probability = 0, direction = None, quality = Q_none, sunPos = Some sp,
      factors = ReasonSunBelowHorizon,
      conditions = [(Critical, SunBelowHorizonRainbowImpossible)],
      recommendations = [WaitForSunrise, RainbowOnlyByDay]\<rparr>"

text \<open>The object returned by the \<open>catch\<close> block (lines 131 to 142).\<close>

definition errorResult :: assessment where
  "errorResult =
     \<lparr>probability = 0, direction = None, quality = Q_none, sunPos = None,
      factors = ReasonCalculationError,
      conditions = [(Critical, CalculationError)],
      recommendations = [TryRefreshingData]\<rparr>"

text \<open>
  The body of \<open>calculateRainbowProbability\<close> from the horizon check on (lines 46 to
  129), as a function of the sun position and the solar events computed before it.
  \<open>Inl\<close> is an exception thrown inside the \<open>try\<close> block.
\<close>

definition scoreWithSun ::
  "real \<Rightarrow> weatherData \<Rightarrow> jsDate \<Rightarrow> sunPosition \<Rightarrow> solarEvents \<Rightarrow> js_error + assessment"
  where
  "scoreWithSun lat w dt sp events =
     (if altitude sp \<le> 0 then Inr (sunBelowHorizonResult sp)
      else
        (let sunAngleFactor = calculateSunAngleFactor (altitude sp);
             tf = calculateTimeFactors dt events
         in case calculateWeatherFactors w of Inl e \<Rightarrow> Inl e | Inr wfs \<Rightarrow>
            (case calculateAtmosphericFactors w lat of Inl e \<Rightarrow> Inl e | Inr afs \<Rightarrow>
             (case calculateGeometricFactors sp w of Inl e \<Rightarrow> Inl e | Inr gfs \<Rightarrow>
              (let baseProbability = calculateBaseProbability sunAngleFactor wfs afs;
                   timeModifier = timeOfDayFactor tf * seasonalFactor tf;
                   environmentModifier =
                     geoLightScatteringFactor gfs * dropletDistributionFactor gfs;
                   finalProbability0 = baseProbability * timeModifier * environmentModifier
               in case applyBonusesAndPenalties finalProbability0 w sp tf of
                    Inl e \<Rightarrow> Inl e
                  | Inr finalProbability1 \<Rightarrow>
                      (let finalProbability = max 0 (min 100 finalProbability1);
                           rainbowDir = calculateRainbowDirection sp;
                           rainbowQuality = calculateRainbowQuality finalProbability sp w
                       in case analyzeConditions sp w tf of
                            Inl e \<Rightarrow> Inl e
                          | Inr conds \<Rightarrow>
                              Inr \<lparr>probability = Math_round (finalProbability * 10) / 10,
                                   direction = Some rainbowDir,
                                   quality = rainbowQuality,
                                   sunPos = Some sp,
                                   factors = Breakdown sunAngleFactor wfs afs tf gfs,
                                   conditions = conds,
                                   recommendations =
                                     generateRecommendations finalProbability sp w events\<rparr>))))))"

text \<open>The \<open>try\<close> block: the check of the input, the astronomy, the scoring.\<close>

definition tryBlock :: "rainbowInput \<Rightarrow> js_error + assessment" where
  "tryBlock c =
     (case weather c of
        None \<Rightarrow> Inl InsufficientData
      | Some w \<Rightarrow>
          if latitude c = 0 \<or> longitude c = 0 then Inl InsufficientData
          else
            (let sp = calculateSunPosition (latitude c) (longitude c) (getTime (dateTime c));
                 events = calculateSolarEvents (latitude c) (longitude c) (getTime (dateTime c))
             in scoreWithSun (latitude c) w (dateTime c) sp events))"

text \<open>The \<open>catch\<close> block turns every exception into \<open>errorResult\<close>.\<close>

definition calculateRainbowProbability :: "rainbowInput \<Rightarrow> assessment" where
  "calculateRainbowProbability c =
     (case tryBlock c of Inl e \<Rightarrow> errorResult | Inr r \<Rightarrow> r)"

text \<open>
  The sun position and the solar events that the \<open>try\<close> block computes from the input
  (lines 43 and 44).
\<close>

definition sunOf :: "rainbowInput \<Rightarrow> sunPosition" where
  "sunOf c = calculateSunPosition (latitude c) (longitude c) (getTime (dateTime c))"

definition eventsOf :: "rainbowInput \<Rightarrow> solarEvents" where
  "eventsOf c = calculateSolarEvents (latitude c) (longitude c) (getTime (dateTime c))"

text \<open>
  The value of the variable \<open>finalProbability\<close> after step 6 (lines 59 to 89), with the
  sun above the horizon: the weighted sum with its modifiers, bonuses and penalties,
  clamped to the range from 0 to 100 and not yet rounded. \<open>calculateRainbowQuality\<close> is
  called on this value (line 95), \<open>Math.round\<close> only when the result object is built
  (line 102).
\<close>

definition finalProbability ::
  "real \<Rightarrow> weatherData \<Rightarrow> jsDate \<Rightarrow> sunPosition \<Rightarrow> solarEvents \<Rightarrow> js_error + real" where
  "finalProbability lat w dt sp events =
     (let sunAngleFactor = calculateSunAngleFactor (altitude sp);
          tf = calculateTimeFactors dt events
      in case calculateWeatherFactors w of Inl e \<Rightarrow> Inl e | Inr wfs \<Rightarrow>
         (case calculateAtmosphericFactors w lat of Inl e \<Rightarrow> Inl e | Inr afs \<Rightarrow>
          (case calculateGeometricFactors sp w of Inl e \<Rightarrow> Inl e | Inr gfs \<Rightarrow>
           (let baseProbability = calculateBaseProbability sunAngleFactor wfs afs;
                timeModifier = timeOfDayFactor tf * seasonalFactor tf;
                environmentModifier =
                  geoLightScatteringFactor gfs * dropletDistributionFactor gfs;
                finalProbability0 = baseProbability * timeModifier * environmentModifier
            in case applyBonusesAndPenalties finalProbability0 w sp tf of
                 Inl e \<Rightarrow> Inl e
               | Inr finalProbability1 \<Rightarrow> Inr (max 0 (min 100 finalProbability1))))))"

section \<open>The other variants of the scorer\<close>



section \<open>The specification's wording, and the inputs of the examples\<close>

text \<open>
  The sun-angle factor as the specification words it: 0 below 5 and above 42 degrees, 1 on
  the band from 15 to 25, a linear ramp from 0.3 to 1.0 between 5 and 15 and a linear
  ramp from 1.0 down to 0.2 between 25 and 42.
\<close>

definition specSunAngleFactor :: "real \<Rightarrow> real" where
  "specSunAngleFactor a =
     (if a < 5 \<or> a > 42 then 0
      else if 15 \<le> a \<and> a \<le> 25 then 1
      else if a < 15 then 0.3 + 0.7 * ((a - 5) / 10)
      else 1 - 0.8 * ((a - 25) / 17))"

text \<open>The sub-objects that the scorer dereferences without a guard are present.\<close>

definition wellFormed :: "weatherData \<Rightarrow> bool" where
  "wellFormed w = (firstDescription w \<noteq> None \<and> main w \<noteq> None \<and> cloudsAll w \<noteq> None)"

definition probabilityAndQuality :: "js_error + assessment \<Rightarrow> (real \<times> quality) option" where
  "probabilityAndQuality x =
     (case x of Inl e \<Rightarrow> None | Inr r \<Rightarrow> Some (probability r, quality r))"

text \<open>A sun position with the given altitude and azimuth.\<close>

definition sunAt :: "real \<Rightarrow> real \<Rightarrow> sunPosition" where
  "sunAt alt az =
     \<lparr>altitude = alt, azimuth = az, declination = 0, rightAscension = 0,
      julianDay = 0, gmst = 0, hourAngle = 0\<rparr>"

definition plainDay :: solarEvents where
  "plainDay =
     \<lparr>sunrise = Some 0, sunset = Some 0, solarNoon = 0,
      civilDawn = None, civilDusk = None, nauticalDawn = None, nauticalDusk = None,
      astronomicalDawn = None, astronomicalDusk = None,
      isPolarNight = False, isPolarDay = False\<rparr>"

text \<open>
  2000-01-01 12:00 UTC, the epoch J2000.0, in milliseconds; then 08:00 on 2024-06-15 and
  23:30 on 2024-05-15 at UTC+3, 12:00 on 2024-05-15 at UTC, and 15:00 on 2000-01-01 at
  UTC+3.
\<close>

definition j2000Noon :: int where
  "j2000Noon = 946728000000"

definition juneMorning :: jsDate where
  "juneMorning = \<lparr>getTime = 1718427600000, getHours = 8, getMinutes = 0, getMonth = 5\<rparr>"

definition mayNoon :: jsDate where
  "mayNoon = \<lparr>getTime = 1715774400000, getHours = 12, getMinutes = 0, getMonth = 4\<rparr>"

definition mayLateEvening :: jsDate where
  "mayLateEvening = \<lparr>getTime = 1715805000000, getHours = 23, getMinutes = 30, getMonth = 4\<rparr>"

definition januaryAfternoon :: jsDate where
  "januaryAfternoon = \<lparr>getTime = j2000Noon, getHours = 15, getMinutes = 0, getMonth = 0\<rparr>"

text \<open>
  The weather of the specification's scenario: humidity 82, cloud cover 45, visibility
  10000, wind 2, rain within the last hour, condition \<open>Clear\<close>.
\<close>

definition idealWeather :: weatherData where
  "idealWeather =
     \<lparr>weatherList = Some [Some (ascii ''Clear'')],
      main = Some \<lparr>humidity = 82, temp = 20, pressure = 1010\<rparr>,
      cloudsAll = Some 45, visibility = Some 10000, windSpeed = Some 2, uvi = None,
      recentRain =
        Some \<lparr>isOptimal = True, hasRecentRain = True, timeSinceRain = Some 0.5\<rparr>\<rparr>"

definition roundingWeather :: weatherData where
  "roundingWeather =
     \<lparr>weatherList = Some [Some (ascii ''clear'')],
      main = Some \<lparr>humidity = 85, temp = 20, pressure = 1010\<rparr>,
      cloudsAll = Some 50, visibility = Some 5000, windSpeed = Some 2, uvi = Some 3,
      recentRain =
        Some \<lparr>isOptimal = False, hasRecentRain = True, timeSinceRain = Some 2.5\<rparr>\<rparr>"


definition weatherWithoutMain :: weatherData where
  "weatherWithoutMain = idealWeather\<lparr>main := None\<rparr>"

definition moscowWithoutWeather :: rainbowInput where
  "moscowWithoutWeather =
     \<lparr>latitude = 55.75, longitude = 37.62, weather = None, dateTime = juneMorning\<rparr>"

definition moscowLateEvening :: rainbowInput where
  "moscowLateEvening =
     \<lparr>latitude = 55.75, longitude = 37.62, weather = Some idealWeather,
      dateTime = mayLateEvening\<rparr>"


definition antarcticJanuary :: rainbowInput where
  "antarcticJanuary =
     \<lparr>latitude = - 89, longitude = 36, weather = Some weatherWithoutMain,
      dateTime = januaryAfternoon\<rparr>"


text \<open>
  At J2000.0 the century count \<open>T\<close> is 0; these are the apparent longitude, the
  obliquity in radians and the sine of the declination that \<open>calculateSunPosition\<close>
  computes there.
\<close>

definition lambda0 :: real where
  "lambda0 =
     280.46646 + getSunEquationOfCenter 0 (getSunMeanAnomaly 0) - 0.00569 -
     0.00478 * sin ((125.04452 - 1934.136261 * 0) * DEGREES_TO_RADIANS)"

definition eps0 :: real where
  "eps0 = getMeanObliquityOfEcliptic 0 * DEGREES_TO_RADIANS"

definition sinDec0 :: real where
  "sinDec0 = sin eps0 * sin (lambda0 * DEGREES_TO_RADIANS)"



text \<open>\<open>roundingWeather\<close> with a UV index of 3.2 instead of 3.\<close>

definition roundingWeatherUp :: weatherData where
  "roundingWeatherUp = roundingWeather\<lparr>uvi := Some 3.2\<rparr>"









section \<open>Auxiliary facts\<close>

lemmas rc_consts =
  CRITICAL_SUN_ANGLE_def OPTIMAL_SUN_ANGLES_0_def OPTIMAL_SUN_ANGLES_1_def
  RAINBOW_ANGLE_PRIMARY_def RAINBOW_WIDTH_def MIN_HUMIDITY_def OPTIMAL_HUMIDITY_0_def
  OPTIMAL_HUMIDITY_1_def MIN_VISIBILITY_def OPTIMAL_VISIBILITY_def MAX_WIND_SPEED_def

lemmas kw_defs =
  kw_yasno_def kw_clear_def kw_solnechno_def kw_sunny_def kw_peremennaya_def
  kw_partly_def kw_dozhd_def kw_rain_def kw_legkiy_def kw_light_def kw_tuman_def kw_mist_def

subsection \<open>The shape of what the scorer returns\<close>

lemma scoreWithSun_cases:
  assumes "scoreWithSun lat w dt sp ev = Inr r"
  shows "(altitude sp \<le> 0 \<and> r = sunBelowHorizonResult sp) \<or>
         (0 < altitude sp \<and>
          (\<exists>p0 p1. applyBonusesAndPenalties p0 w sp (calculateTimeFactors dt ev) = Inr p1 \<and>
             probability r = Math_round (max 0 (min 100 p1) * 10) / 10 \<and>
             quality r = calculateRainbowQuality (max 0 (min 100 p1)) sp w \<and>
             direction r = Some (calculateRainbowDirection sp)))"
proof (cases "altitude sp \<le> 0")
  case True
  with assms show ?thesis by (simp add: scoreWithSun_def)
next
  case False
  with assms show ?thesis
    unfolding scoreWithSun_def Let_def
    by (auto split: sum.splits) blast
qed

lemma calculateRainbowProbability_cases:
  "calculateRainbowProbability c = errorResult \<or>
   (\<exists>r lat w dt sp ev. scoreWithSun lat w dt sp ev = Inr r \<and>
      calculateRainbowProbability c = r \<and> dt = dateTime c)"
  unfolding calculateRainbowProbability_def tryBlock_def Let_def
  by (auto split: sum.splits option.splits)


lemma applyBonusesAndPenalties_zero:
  "altitude sp < 5 \<or> currentHour tf \<ge> 22 \<or> currentHour tf \<le> 4 \<Longrightarrow>
   applyBonusesAndPenalties p w sp tf = Inr 0"
  by (auto simp: applyBonusesAndPenalties_def Let_def)

lemma currentHour_calculateTimeFactors:
  "currentHour (calculateTimeFactors dt ev) = getHours dt"
  by (simp add: calculateTimeFactors_def Let_def)

lemma Math_round_bounds:
  "0 \<le> p \<Longrightarrow> p \<le> 100 \<Longrightarrow>
   0 \<le> Math_round (p * 10) / 10 \<and> Math_round (p * 10) / 10 \<le> 100"
  unfolding Math_round_def
  by (auto simp: le_floor_iff floor_le_iff; linarith)

lemma clamp_bounds: "0 \<le> max 0 (min 100 (p::real)) \<and> max 0 (min 100 p) \<le> 100"
  by auto

subsection \<open>Weather with and without the required sub-objects\<close>

lemma calculateWeatherFactors_not_wellFormed:
  assumes "\<not> wellFormed w"
  shows "calculateWeatherFactors w = Inl TypeError"
proof (cases "firstDescription w")
  case None
  then show ?thesis by (simp add: calculateWeatherFactors_def)
next
  case d: (Some d)
  show ?thesis
  proof (cases "main w")
    case None
    then show ?thesis by (simp add: calculateWeatherFactors_def d)
  next
    case m: (Some m)
    from assms d m have "cloudsAll w = None" by (simp add: wellFormed_def)
    then show ?thesis by (simp add: calculateWeatherFactors_def d m)
  qed
qed

lemma scoreWithSun_not_wellFormed:
  assumes "0 < altitude sp" "\<not> wellFormed w"
  shows "scoreWithSun lat w dt sp ev = Inl TypeError"
  unfolding scoreWithSun_def Let_def calculateWeatherFactors_not_wellFormed [OF assms(2)]
  using assms(1) by simp

lemma firstDescription_wellFormed:
  "wellFormed w \<Longrightarrow> \<exists>d m cl. firstDescription w = Some d \<and> main w = Some m \<and> cloudsAll w = Some cl"
  by (auto simp: wellFormed_def)

lemma calculateWeatherFactors_wellFormed:
  assumes "wellFormed w" shows "\<exists>x. calculateWeatherFactors w = Inr x"
proof -
  from firstDescription_wellFormed [OF assms] obtain d m cl where
    "firstDescription w = Some d" "main w = Some m" "cloudsAll w = Some cl" by blast
  then show ?thesis unfolding calculateWeatherFactors_def by (simp add: Let_def)
qed

lemma calculateAtmosphericFactors_wellFormed:
  assumes "wellFormed w" shows "\<exists>x. calculateAtmosphericFactors w lat = Inr x"
proof -
  from firstDescription_wellFormed [OF assms] obtain d m cl where
    "firstDescription w = Some d" "main w = Some m" "cloudsAll w = Some cl" by blast
  then show ?thesis unfolding calculateAtmosphericFactors_def estimateUVIndex_def
    by (cases "uvi w") (simp_all add: Let_def)
qed

lemma calculateGeometricFactors_wellFormed:
  assumes "wellFormed w" shows "\<exists>x. calculateGeometricFactors sp w = Inr x"
proof -
  from firstDescription_wellFormed [OF assms] obtain d m cl where
    "firstDescription w = Some d" "main w = Some m" "cloudsAll w = Some cl" by blast
  then show ?thesis unfolding calculateGeometricFactors_def by (simp add: Let_def)
qed

lemma applyBonusesAndPenalties_wellFormed:
  assumes "wellFormed w" shows "\<exists>x. applyBonusesAndPenalties p w sp tf = Inr x"
proof -
  from firstDescription_wellFormed [OF assms] obtain d m cl where
    "firstDescription w = Some d" "main w = Some m" "cloudsAll w = Some cl" by blast
  then show ?thesis unfolding applyBonusesAndPenalties_def by (simp add: Let_def)
qed

lemma analyzeConditions_wellFormed:
  assumes "wellFormed w" shows "\<exists>x. analyzeConditions sp w tf = Inr x"
proof -
  from firstDescription_wellFormed [OF assms] obtain d m cl where
    "firstDescription w = Some d" "main w = Some m" "cloudsAll w = Some cl" by blast
  then show ?thesis unfolding analyzeConditions_def by simp
qed

lemma scoreWithSun_wellFormed:
  assumes "wellFormed w"
  shows "\<exists>r. scoreWithSun lat w dt sp ev = Inr r"
proof (cases "altitude sp \<le> 0")
  case True
  then show ?thesis by (simp add: scoreWithSun_def)
next
  case False
  obtain wfs where 1: "calculateWeatherFactors w = Inr wfs"
    using calculateWeatherFactors_wellFormed [OF assms] by blast
  obtain afs where 2: "calculateAtmosphericFactors w lat = Inr afs"
    using calculateAtmosphericFactors_wellFormed [OF assms] by blast
  obtain gfs where 3: "calculateGeometricFactors sp w = Inr gfs"
    using calculateGeometricFactors_wellFormed [OF assms] by blast
  obtain cs where 5: "analyzeConditions sp w (calculateTimeFactors dt ev) = Inr cs"
    using analyzeConditions_wellFormed [OF assms] by blast
  obtain p1 where 4: "applyBonusesAndPenalties
      (calculateBaseProbability (calculateSunAngleFactor (altitude sp)) wfs afs *
       (timeOfDayFactor (calculateTimeFactors dt ev) * seasonalFactor (calculateTimeFactors dt ev)) *
       (geoLightScatteringFactor gfs * dropletDistributionFactor gfs))
      w sp (calculateTimeFactors dt ev) = Inr p1"
    using applyBonusesAndPenalties_wellFormed [OF assms] by blast
  show ?thesis
    unfolding scoreWithSun_def Let_def 1 2 3 using False by (simp add: 4 5)
qed

lemma scoreWithSun_eval:
  assumes "0 < altitude sp"
    and "calculateWeatherFactors w = Inr wfs"
    and "calculateAtmosphericFactors w lat = Inr afs"
    and "calculateGeometricFactors sp w = Inr gfs"
    and "applyBonusesAndPenalties
           (calculateBaseProbability (calculateSunAngleFactor (altitude sp)) wfs afs *
            (timeOfDayFactor (calculateTimeFactors dt ev) *
             seasonalFactor (calculateTimeFactors dt ev)) *
            (geoLightScatteringFactor gfs * dropletDistributionFactor gfs))
           w sp (calculateTimeFactors dt ev) = Inr p1"
    and "analyzeConditions sp w (calculateTimeFactors dt ev) = Inr cs"
  shows "\<exists>r. scoreWithSun lat w dt sp ev = Inr r \<and>
           probability r = Math_round (max 0 (min 100 p1) * 10) / 10 \<and>
           quality r = calculateRainbowQuality (max 0 (min 100 p1)) sp w \<and>
           direction r = Some (calculateRainbowDirection sp) \<and>
           conditions r = cs"
  unfolding scoreWithSun_def Let_def assms(2,3,4)
  using assms(1) by (simp add: assms(5,6))


lemma wf_rounding: "wellFormed roundingWeather"
  by (simp add: wellFormed_def roundingWeather_def firstDescription_def)

subsection \<open>The remainder by 360\<close>



subsection \<open>The scenario weather at noon\<close>

lemma lower_Clear: "toLowerCase (ascii ''Clear'') = kw_clear"
  by (simp add: toLowerCase_def ascii_def lowerUnit_def kw_clear_def)

lemma lower_clear: "toLowerCase (ascii ''clear'') = kw_clear"
  by (simp add: toLowerCase_def ascii_def lowerUnit_def kw_clear_def)

lemma idealWeather_factors:
  "calculateWeatherFactors idealWeather =
   Inr \<lparr>rainFactor = 2 / 5, humidityFactor = 1, cloudFactor = 1,
        visibilityFactor = 1, windFactor = 1, temperatureFactor = 1,
        recentRainFactor = 1, sunlightFactor = 1\<rparr>"
  by (simp add: calculateWeatherFactors_def idealWeather_def firstDescription_def lower_Clear
      kw_defs rc_consts numberOrNull_def orDefault_def Let_def)

lemma idealWeather_atmospheric:
  "calculateAtmosphericFactors idealWeather 10 =
   Inr \<lparr>lightScatteringFactor = 44 / 45, pressureFactor = 1, airQualityFactor = 9 / 10\<rparr>"
  by (simp add: calculateAtmosphericFactors_def idealWeather_def estimateUVIndex_def Let_def)

lemma idealWeather_geometric:
  "\<exists>x a. 3 / 10 \<le> x \<and> calculateGeometricFactors sp idealWeather =
   Inr \<lparr>geoLightScatteringFactor = x, dropletDistributionFactor = 22 / 25, airmass = a\<rparr>"
proof (intro exI conjI)
  show "calculateGeometricFactors sp idealWeather =
     Inr \<lparr>geoLightScatteringFactor =
            max (3 / 10) (1 - (1 / cos ((90 - altitude sp) * pi / 180) - 1) * (1 / 10)),
          dropletDistributionFactor = 22 / 25,
          airmass = 1 / cos ((90 - altitude sp) * pi / 180)\<rparr>"
    by (simp add: calculateGeometricFactors_def idealWeather_def Let_def)
  show "3 / 10 \<le> max (3 / 10) (1 - (1 / cos ((90 - altitude sp) * pi / 180) - 1) * (1 / 10))"
    by (rule max.cobounded1)
qed

lemma mayNoon_factors:
  "timeOfDayFactor (calculateTimeFactors mayNoon ev) = 3 / 5 \<and>
   seasonalFactor (calculateTimeFactors mayNoon ev) = 1 \<and>
   currentHour (calculateTimeFactors mayNoon ev) = 12"
  by (simp add: calculateTimeFactors_def mayNoon_def Let_def)

lemma raw_Clear_no_rain: "\<not> str_includes (ascii ''Clear'') kw_dozhd"
  by (simp add: ascii_def kw_dozhd_def)

lemma idealWeather_noon_bonuses:
  "5 \<le> altitude sp \<Longrightarrow>
   applyBonusesAndPenalties p idealWeather sp (calculateTimeFactors mayNoon ev) = Inr p"
  by (simp add: applyBonusesAndPenalties_def idealWeather_def firstDescription_def
      raw_Clear_no_rain mayNoon_factors Let_def)

lemma idealWeather_sun_too_high:
  "42 < altitude sp \<Longrightarrow>
   \<exists>cs. analyzeConditions sp idealWeather tf = Inr ((Critical, SunTooHighForRainbow) # cs)"
  by (simp add: analyzeConditions_def idealWeather_def firstDescription_def rc_consts)

lemma Math_round_lower: "11 \<le> (p::real) \<Longrightarrow> 11 \<le> Math_round (p * 10) / 10"
  unfolding Math_round_def by (simp add: le_floor_iff)

lemma above_critical_angle_scores:
  assumes "42 < altitude sp"
  shows "\<exists>r cs. scoreWithSun 10 idealWeather mayNoon sp ev = Inr r \<and> 11 \<le> probability r \<and>
           conditions r = (Critical, SunTooHighForRainbow) # cs"
proof -
  obtain x a where x: "3 / 10 \<le> x" and
    gf: "calculateGeometricFactors sp idealWeather =
      Inr \<lparr>geoLightScatteringFactor = x, dropletDistributionFactor = 22 / 25, airmass = a\<rparr>"
    using idealWeather_geometric by blast
  obtain cs where an: "analyzeConditions sp idealWeather (calculateTimeFactors mayNoon ev) =
      Inr ((Critical, SunTooHighForRainbow) # cs)"
    using idealWeather_sun_too_high [OF assms] by blast
  have alt: "0 < altitude sp" "5 \<le> altitude sp" using assms by simp_all
  define p1 where "p1 =
     calculateBaseProbability (calculateSunAngleFactor (altitude sp))
       \<lparr>rainFactor = 2 / 5, humidityFactor = 1, cloudFactor = 1,
        visibilityFactor = 1, windFactor = 1, temperatureFactor = 1,
        recentRainFactor = 1, sunlightFactor = 1\<rparr>
       \<lparr>lightScatteringFactor = 44 / 45, pressureFactor = 1, airQualityFactor = 9 / 10\<rparr> *
     (timeOfDayFactor (calculateTimeFactors mayNoon ev) *
      seasonalFactor (calculateTimeFactors mayNoon ev)) *
     (geoLightScatteringFactor
        \<lparr>geoLightScatteringFactor = x, dropletDistributionFactor = 22 / 25, airmass = a\<rparr> *
      dropletDistributionFactor
        \<lparr>geoLightScatteringFactor = x, dropletDistributionFactor = 22 / 25, airmass = a\<rparr>)"
  have f: "calculateSunAngleFactor (altitude sp) = 0"
    using assms by (simp add: calculateSunAngleFactor_def rc_consts)
  have p1: "p1 = 72424 * x / 1875"
    unfolding p1_def f by (simp add: calculateBaseProbability_def mayNoon_factors Let_def)
  have lo: "11 \<le> max 0 (min 100 p1)" unfolding p1 using x by simp
  have ab: "applyBonusesAndPenalties p1 idealWeather sp (calculateTimeFactors mayNoon ev) = Inr p1"
    by (rule idealWeather_noon_bonuses [OF alt(2)])
  from scoreWithSun_eval [OF alt(1) idealWeather_factors idealWeather_atmospheric gf
      ab [unfolded p1_def] an]
  obtain r where "scoreWithSun 10 idealWeather mayNoon sp ev = Inr r"
    "probability r = Math_round (max 0 (min 100 p1) * 10) / 10"
    "conditions r = (Critical, SunTooHighForRainbow) # cs"
    unfolding p1_def by blast
  then show ?thesis using Math_round_lower [OF lo] by simp
qed

subsection \<open>The sun at J2000.0 seen from 89 degrees north and south\<close>

text \<open>
  At \<open>T = 0\<close> the apparent longitude lies between 270 and 330 degrees and the obliquity
  between 15 and 30 degrees, so the sine of the declination lies between \<open>-1/2\<close> and
  \<open>-1/8\<close>: the sun is south of the equator, below the horizon all day at 89 degrees
  north and above it all day at 89 degrees south.
\<close>

lemma sin_ge_half: assumes "pi / 6 \<le> x" "x \<le> pi / 2" shows "1 / 2 \<le> sin x"
proof -
  have "sin (pi / 6) \<le> sin x"
    by (rule sin_monotone_2pi_le) (use assms pi_gt_zero in linarith)+
  then show ?thesis by (simp add: sin_30)
qed

lemma sin_le_neg_half:
  assumes "3 * pi / 2 \<le> x" "x \<le> 11 * pi / 6" shows "sin x \<le> - (1 / 2)"
proof -
  have "1 / 2 \<le> sin (2 * pi - x)"
    by (rule sin_ge_half) (use assms in linarith)+
  moreover have "sin (2 * pi - x) = - sin x"
    by (simp add: sin_diff)
  ultimately show ?thesis by simp
qed

lemma whileAbove360_id: "x \<le> 360 \<Longrightarrow> whileAbove360 x = x"
  by (subst whileAbove360.simps) simp

lemma whileBelow0_id: "0 \<le> x \<Longrightarrow> whileBelow0 x = x"
  by (subst whileBelow0.simps) simp

lemma T0: "(getJulianDay j2000Noon - J2000) / 36525 = 0"
  by (simp add: getJulianDay_def j2000Noon_def J2000_def)

lemma L0_0: "getGeometricMeanLongitudeSun 0 = 280.46646"
  by (simp add: getGeometricMeanLongitudeSun_def whileAbove360_id whileBelow0_id)

lemma C_bound: "\<bar>getSunEquationOfCenter 0 M\<bar> \<le> 2"
proof -
  define s1 where "s1 = sin (M * DEGREES_TO_RADIANS)"
  define s2 where "s2 = sin (2 * (M * DEGREES_TO_RADIANS))"
  define s3 where "s3 = sin (3 * (M * DEGREES_TO_RADIANS))"
  have b: "- 1 \<le> s1" "s1 \<le> 1" "- 1 \<le> s2" "s2 \<le> 1" "- 1 \<le> s3" "s3 \<le> 1"
    by (simp_all add: s1_def s2_def s3_def)
  have eq: "getSunEquationOfCenter 0 M =
      s1 * (957301 / 500000) + s2 * (19993 / 1000000) + s3 * (289 / 1000000)"
    by (simp add: getSunEquationOfCenter_def Let_def s1_def s2_def s3_def)
  show ?thesis unfolding eq using b by linarith
qed

lemma lambda0_bounds: "270 \<le> lambda0 \<and> lambda0 \<le> 330"
proof -
  define c where "c = getSunEquationOfCenter 0 (getSunMeanAnomaly 0)"
  define s where "s = sin ((125.04452 - 1934.136261 * 0) * DEGREES_TO_RADIANS)"
  have "\<bar>c\<bar> \<le> 2" unfolding c_def by (rule C_bound)
  then have cb: "- 2 \<le> c" "c \<le> 2" by linarith+
  have sb: "- 1 \<le> s" "s \<le> 1" by (simp_all add: s_def)
  have "lambda0 = 280.46646 + c - 0.00569 - 0.00478 * s"
    by (simp only: lambda0_def c_def s_def)
  then have eq: "lambda0 = 14023323 / 50000 + c - 569 / 100000 - (239 / 50000) * s"
    by simp
  show ?thesis unfolding eq using cb sb by (intro conjI; linarith)
qed

lemma sin_lambda0: "sin (lambda0 * DEGREES_TO_RADIANS) \<le> - (1 / 2)"
proof (rule sin_le_neg_half)
  show "3 * pi / 2 \<le> lambda0 * DEGREES_TO_RADIANS"
    using lambda0_bounds pi_gt_zero by (simp add: DEGREES_TO_RADIANS_def field_simps)
  show "lambda0 * DEGREES_TO_RADIANS \<le> 11 * pi / 6"
    using lambda0_bounds pi_gt_zero by (simp add: DEGREES_TO_RADIANS_def field_simps)
qed

lemma eps0_bounds: "pi / 12 \<le> eps0 \<and> eps0 \<le> pi / 6"
  using pi_gt_zero
  by (simp add: eps0_def getMeanObliquityOfEcliptic_def DEGREES_TO_RADIANS_def field_simps)

lemma sin_eps0: "1 / 4 \<le> sin eps0 \<and> sin eps0 \<le> 1 / 2"
proof
  have pos: "0 \<le> sin eps0"
    by (rule sin_ge_zero) (use eps0_bounds pi_gt_zero in linarith)+
  have "1 / 2 \<le> sin (2 * eps0)"
    by (rule sin_ge_half) (use eps0_bounds in linarith)+
  also have "sin (2 * eps0) = 2 * sin eps0 * cos eps0" by (rule sin_double)
  also have "\<dots> \<le> 2 * sin eps0 * 1"
    by (rule mult_left_mono) (use pos in simp_all)
  finally show "1 / 4 \<le> sin eps0" by simp
  have "sin eps0 \<le> sin (pi / 6)"
    by (rule sin_monotone_2pi_le) (use eps0_bounds pi_gt_zero in linarith)+
  then show "sin eps0 \<le> 1 / 2" by (simp add: sin_30)
qed

lemma sinDec0_bounds: "- (1 / 2) \<le> sinDec0 \<and> sinDec0 \<le> - (1 / 8)"
proof
  have e: "1 / 4 \<le> sin eps0" "sin eps0 \<le> 1 / 2" using sin_eps0 by auto
  have l: "sin (lambda0 * DEGREES_TO_RADIANS) \<le> - (1 / 2)" by (rule sin_lambda0)
  have l1: "- 1 \<le> sin (lambda0 * DEGREES_TO_RADIANS)" by simp
  have "sin eps0 * sin (lambda0 * DEGREES_TO_RADIANS) \<le> sin eps0 * (- (1 / 2))"
    by (rule mult_left_mono) (use e l in linarith)+
  also have "\<dots> \<le> - (1 / 8)" using e by simp
  finally show "sinDec0 \<le> - (1 / 8)" by (simp add: sinDec0_def)
  have "sin eps0 * (- 1) \<le> sin eps0 * sin (lambda0 * DEGREES_TO_RADIANS)"
    by (rule mult_left_mono) (use e l1 in linarith)+
  then show "- (1 / 2) \<le> sinDec0" using e by (simp add: sinDec0_def)
qed

lemma declination_j2000:
  "declination (calculateSunPosition lat lon j2000Noon) * DEGREES_TO_RADIANS = arcsin sinDec0"
  unfolding calculateSunPosition_def Let_def T0 L0_0
  by (simp add: sinDec0_def eps0_def lambda0_def DEGREES_TO_RADIANS_def RADIANS_TO_DEGREES_def)

lemma altitude_j2000:
  "altitude (calculateSunPosition lat lon j2000Noon) =
   arcsin (sin (lat * DEGREES_TO_RADIANS) * sinDec0 +
           cos (lat * DEGREES_TO_RADIANS) * cos (arcsin sinDec0) *
           cos (hourAngle (calculateSunPosition lat lon j2000Noon) * DEGREES_TO_RADIANS))
     * RADIANS_TO_DEGREES"
proof -
  have s: "sin (arcsin sinDec0) = sinDec0"
    by (rule sin_arcsin) (use sinDec0_bounds in linarith)+
  have d: "arcsin (sin (getMeanObliquityOfEcliptic 0 * DEGREES_TO_RADIANS) *
        sin ((280.46646 + getSunEquationOfCenter 0 (getSunMeanAnomaly 0) - 0.00569 -
     0.00478 * sin ((125.04452 - 1934.136261 * 0) * DEGREES_TO_RADIANS)) * DEGREES_TO_RADIANS)) * RADIANS_TO_DEGREES * DEGREES_TO_RADIANS = arcsin sinDec0"
    by (simp add: sinDec0_def eps0_def lambda0_def DEGREES_TO_RADIANS_def RADIANS_TO_DEGREES_def)
  show ?thesis
    unfolding calculateSunPosition_def Let_def T0 L0_0
    apply (simp only: sunPosition.simps d s)
    done
qed

lemma lat89: "1 / 2 \<le> sin (89 * DEGREES_TO_RADIANS) \<and> sin (89 * DEGREES_TO_RADIANS) \<le> 1 \<and>
  0 < cos (89 * DEGREES_TO_RADIANS) \<and> cos (89 * DEGREES_TO_RADIANS) \<le> 1 / 45"
proof (intro conjI)
  show "1 / 2 \<le> sin (89 * DEGREES_TO_RADIANS)"
    by (rule sin_ge_half) (use pi_gt_zero in \<open>simp_all add: DEGREES_TO_RADIANS_def\<close>)
  show "sin (89 * DEGREES_TO_RADIANS) \<le> 1" by simp
  show "0 < cos (89 * DEGREES_TO_RADIANS)"
    by (rule cos_gt_zero) (use pi_gt_zero in \<open>simp_all add: DEGREES_TO_RADIANS_def\<close>)
  have "cos (89 * DEGREES_TO_RADIANS) = sin (pi / 2 - 89 * DEGREES_TO_RADIANS)"
    by (simp add: sin_diff)
  also have "pi / 2 - 89 * DEGREES_TO_RADIANS = pi / 180"
    by (simp add: DEGREES_TO_RADIANS_def)
  also have "sin (pi / 180) \<le> pi / 180"
    by (rule sin_x_le_x) simp
  also have "pi / 180 \<le> 1 / 45" using pi_less_4 by simp
  finally show "cos (89 * DEGREES_TO_RADIANS) \<le> 1 / 45" .
qed

lemma cos_term_bound:
  assumes "0 \<le> (c::real)" "c \<le> 1 / 45"
  shows "\<bar>c * cos (a::real) * cos (b::real)\<bar> \<le> 1 / 45"
proof -
  have "\<bar>cos a * cos b\<bar> = \<bar>cos a\<bar> * \<bar>cos b\<bar>" by (rule abs_mult)
  also have "\<dots> \<le> 1 * 1" by (rule mult_mono) simp_all
  finally have "\<bar>cos a * cos b\<bar> \<le> 1 * 1" .
  then have "\<bar>c\<bar> * \<bar>cos a * cos b\<bar> \<le> (1 / 45) * 1"
    by (intro mult_mono) (use assms in simp_all)
  then show ?thesis by (simp add: abs_mult mult.assoc)
qed


lemma altitude_polar_day: "0 < altitude (calculateSunPosition (- 89) lon j2000Noon)"
proof -
  define h where "h = hourAngle (calculateSunPosition (- 89) lon j2000Noon) * DEGREES_TO_RADIANS"
  define x where "x = sin (- 89 * DEGREES_TO_RADIANS) * sinDec0 +
           cos (- 89 * DEGREES_TO_RADIANS) * cos (arcsin sinDec0) * cos h"
  have l: "1 / 2 \<le> sin (89 * DEGREES_TO_RADIANS)" "sin (89 * DEGREES_TO_RADIANS) \<le> 1"
    "0 \<le> cos (89 * DEGREES_TO_RADIANS)" "cos (89 * DEGREES_TO_RADIANS) \<le> 1 / 45"
    using lat89 by simp_all
  have d: "- (1 / 2) \<le> sinDec0" "sinDec0 \<le> - (1 / 8)" using sinDec0_bounds by simp_all
  have "sin (89 * DEGREES_TO_RADIANS) * sinDec0 \<le> (1 / 2) * sinDec0"
    by (rule mult_right_mono_neg) (use l d in linarith)+
  then have t1: "sin (89 * DEGREES_TO_RADIANS) * sinDec0 \<le> - (1 / 16)" using d by linarith
  have "1 * sinDec0 \<le> sin (89 * DEGREES_TO_RADIANS) * sinDec0"
    by (rule mult_right_mono_neg) (use l d in linarith)+
  then have t1': "- (1 / 2) \<le> sin (89 * DEGREES_TO_RADIANS) * sinDec0" using d by linarith
  have t2: "\<bar>cos (89 * DEGREES_TO_RADIANS) * cos (arcsin sinDec0) * cos h\<bar> \<le> 1 / 45"
    by (rule cos_term_bound) (use l in simp_all)
  have xeq: "x = - (sin (89 * DEGREES_TO_RADIANS) * sinDec0) +
     cos (89 * DEGREES_TO_RADIANS) * cos (arcsin sinDec0) * cos h"
    by (simp add: x_def)
  have xb: "0 < x" "x \<le> 1" unfolding xeq using t1 t1' t2 by linarith+
  have "arcsin 0 < arcsin x"
    by (rule arcsin_less_arcsin) (use xb in simp_all)
  moreover have "0 < RADIANS_TO_DEGREES" by (simp add: RADIANS_TO_DEGREES_def)
  ultimately have "0 < arcsin x * RADIANS_TO_DEGREES"
    by simp
  then show ?thesis unfolding altitude_j2000 x_def h_def by simp
qed

lemma solarNoonDate_j2000: "solarNoonDate 0 j2000Noon = j2000Noon"
  by (simp add: solarNoonDate_def getJulianDay_def new_Date_def js_trunc_def j2000Noon_def)

lemma tan_dec0: "tan (arcsin sinDec0) \<le> - (1 / 8)"
proof -
  have d: "- (1 / 2) \<le> sinDec0" "sinDec0 \<le> - (1 / 8)" using sinDec0_bounds by simp_all
  have c: "cos (arcsin sinDec0) = sqrt (1 - sinDec0\<^sup>2)"
    by (rule cos_arcsin) (use d in linarith)+
  have "sinDec0\<^sup>2 \<le> (1 / 2)\<^sup>2"
    unfolding abs_le_square_iff [symmetric] using d by simp
  then have "0 < 1 - sinDec0\<^sup>2" by (simp add: power2_eq_square)
  then have cpos: "0 < cos (arcsin sinDec0)" unfolding c by simp
  have cle: "cos (arcsin sinDec0) \<le> 1" by simp
  have s: "sin (arcsin sinDec0) = sinDec0"
    by (rule sin_arcsin) (use d in linarith)+
  have "sinDec0 / cos (arcsin sinDec0) \<le> sinDec0"
    using cpos cle d by (simp add: field_simps mult_le_cancel_left2)
  then show ?thesis unfolding tan_def s using d by linarith
qed

lemma tan_lat89: "45 / 2 \<le> tan (89 * DEGREES_TO_RADIANS)"
proof -
  have l: "1 / 2 \<le> sin (89 * DEGREES_TO_RADIANS)"
    "0 < cos (89 * DEGREES_TO_RADIANS)" "cos (89 * DEGREES_TO_RADIANS) \<le> 1 / 45"
    using lat89 by simp_all
  have "45 / 2 * cos (89 * DEGREES_TO_RADIANS) \<le> sin (89 * DEGREES_TO_RADIANS)"
    using l by linarith
  then show ?thesis unfolding tan_def using l(2) by (simp add: field_simps)
qed

lemma polar_night_j2000: "1 < cosHourAngleOf 89 0 j2000Noon"
proof -
  have eq: "cosHourAngleOf 89 0 j2000Noon =
      tan (89 * DEGREES_TO_RADIANS) * (- tan (arcsin sinDec0))"
    unfolding cosHourAngleOf_def Let_def solarNoonDate_j2000 declination_j2000 by simp
  have "45 / 2 * (1 / 8) \<le> tan (89 * DEGREES_TO_RADIANS) * (- tan (arcsin sinDec0))"
    by (rule mult_mono) (use tan_lat89 tan_dec0 in simp_all)
  then show ?thesis unfolding eq by simp
qed



subsection \<open>The sun at J2000.0 seen from 30 degrees south\<close>














subsection \<open>The probability before it is rounded\<close>

lemma scoreWithSun_finalProbability:
  assumes "0 < altitude sp" and "scoreWithSun lat w dt sp ev = Inr r"
  shows "\<exists>p. finalProbability lat w dt sp ev = Inr p \<and> 0 \<le> p \<and> p \<le> 100 \<and>
           probability r = Math_round (p * 10) / 10 \<and>
           quality r = calculateRainbowQuality p sp w"
  using assms unfolding scoreWithSun_def finalProbability_def Let_def
  by (auto split: sum.splits)

lemma finalProbability_eval:
  assumes "calculateWeatherFactors w = Inr wfs"
    and "calculateAtmosphericFactors w lat = Inr afs"
    and "calculateGeometricFactors sp w = Inr gfs"
    and "applyBonusesAndPenalties
           (calculateBaseProbability (calculateSunAngleFactor (altitude sp)) wfs afs *
            (timeOfDayFactor (calculateTimeFactors dt ev) *
             seasonalFactor (calculateTimeFactors dt ev)) *
            (geoLightScatteringFactor gfs * dropletDistributionFactor gfs))
           w sp (calculateTimeFactors dt ev) = Inr p1"
  shows "finalProbability lat w dt sp ev = Inr (max 0 (min 100 p1))"
  unfolding finalProbability_def Let_def assms(1,2,3)
  by (simp add: assms(4))




lemma roundingWeather_final:
  assumes "0 < u" "u \<le> 5"
  shows "finalProbability 55.75 (roundingWeather\<lparr>uvi := Some u\<rparr>) juneMorning (sunAt 30 100)
           plainDay = Inr (81 / 100 * (12379 / 170 + 2 * u / 5))"
proof -
  let ?w = "roundingWeather\<lparr>uvi := Some u\<rparr>"
  have wfs: "calculateWeatherFactors ?w =
     Inr \<lparr>rainFactor = 2 / 5, humidityFactor = 1, cloudFactor = 1,
          visibilityFactor = 1 / 2, windFactor = 1, temperatureFactor = 1,
          recentRainFactor = 1 / 2, sunlightFactor = 1\<rparr>"
    by (simp add: calculateWeatherFactors_def roundingWeather_def firstDescription_def
        lower_clear kw_defs rc_consts numberOrNull_def orDefault_def Let_def)
  have afs: "calculateAtmosphericFactors ?w 55.75 =
     Inr \<lparr>lightScatteringFactor = u / 5, pressureFactor = 1, airQualityFactor = 9 / 10\<rparr>"
    using assms by (simp add: calculateAtmosphericFactors_def roundingWeather_def)
  have gfs: "calculateGeometricFactors (sunAt 30 100) ?w =
     Inr \<lparr>geoLightScatteringFactor = 9 / 10, dropletDistributionFactor = 9 / 10,
          airmass = 2\<rparr>"
    by (simp add: calculateGeometricFactors_def roundingWeather_def sunAt_def cos_60 Let_def)
  have tf: "timeOfDayFactor (calculateTimeFactors juneMorning plainDay) = 1"
    "seasonalFactor (calculateTimeFactors juneMorning plainDay) = 1"
    "currentHour (calculateTimeFactors juneMorning plainDay) = 8"
    by (simp_all add: calculateTimeFactors_def juneMorning_def Let_def)
  have ab: "applyBonusesAndPenalties p ?w (sunAt 30 100)
      (calculateTimeFactors juneMorning plainDay) = Inr p" for p
    by (simp add: applyBonusesAndPenalties_def roundingWeather_def sunAt_def
        firstDescription_def ascii_def kw_dozhd_def tf Let_def)
  have alt: "altitude (sunAt 30 100) = 30" by (simp add: sunAt_def)
  have base: "calculateBaseProbability (calculateSunAngleFactor 30)
           \<lparr>rainFactor = 2 / 5, humidityFactor = 1, cloudFactor = 1,
            visibilityFactor = 1 / 2, windFactor = 1, temperatureFactor = 1,
            recentRainFactor = 1 / 2, sunlightFactor = 1\<rparr>
           \<lparr>lightScatteringFactor = u / 5, pressureFactor = 1, airQualityFactor = 9 / 10\<rparr>
        = 12379 / 170 + 2 * u / 5"
    by (simp add: calculateBaseProbability_def calculateSunAngleFactor_def rc_consts Let_def)
  have in_range: "0 \<le> 81 / 100 * (12379 / 170 + 2 * u / 5)"
    "81 / 100 * (12379 / 170 + 2 * u / 5) \<le> 100"
    using assms by simp_all
  show ?thesis
    unfolding finalProbability_eval [OF wfs afs gfs ab] alt base tf
    using in_range by (simp add: max_def min_def)
qed

lemma roundingWeather_uvi: "roundingWeather = roundingWeather\<lparr>uvi := Some 3\<rparr>"
  by (simp add: roundingWeather_def)

lemma wf_roundingUp: "wellFormed roundingWeatherUp"
  by (simp add: wellFormed_def roundingWeatherUp_def roundingWeather_def firstDescription_def)

lemma tryBlock_Inr:
  assumes "tryBlock c = Inr r"
  shows "\<exists>w. weather c = Some w \<and>
           scoreWithSun (latitude c) w (dateTime c) (sunOf c) (eventsOf c) = Inr r"
proof (cases "weather c")
  case None
  with assms show ?thesis by (simp add: tryBlock_def)
next
  case (Some w)
  show ?thesis
  proof (cases "latitude c = 0 \<or> longitude c = 0")
    case True
    with assms Some show ?thesis by (simp add: tryBlock_def)
  next
    case False
    with assms Some show ?thesis by (simp add: tryBlock_def sunOf_def eventsOf_def)
  qed
qed

lemma round_weak: "Math_round (1019223 / 17000 * 10) / 10 = 60"
proof -
  have "\<lfloor>(1019223 / 17000 * 10 + 1 / 2 :: real)\<rfloor> = 600" by (simp add: floor_eq_iff)
  then show ?thesis by (simp add: Math_round_def)
qed

lemma round_moderate: "Math_round (5101623 / 85000 * 10) / 10 = 60"
proof -
  have "\<lfloor>(5101623 / 85000 * 10 + 1 / 2 :: real)\<rfloor> = 600" by (simp add: floor_eq_iff)
  then show ?thesis by (simp add: Math_round_def)
qed

lemma calculateRainbowQuality_tier:
  "calculateRainbowQuality p sp w =
     (if p < 20 then Q_none else if p < 40 then Q_very_weak else if p < 60 then Q_weak
      else if p < 75 then Q_moderate else if p < 90 then Q_good else Q_excellent)"
  by (simp add: calculateRainbowQuality_def)

lemma rounding_two_tiers:
  "\<exists>r1 r2.
     scoreWithSun 55.75 roundingWeather juneMorning (sunAt 30 100) plainDay = Inr r1 \<and>
     scoreWithSun 55.75 roundingWeatherUp juneMorning (sunAt 30 100) plainDay = Inr r2 \<and>
     probability r1 = 60 \<and> quality r1 = Q_weak \<and>
     probability r2 = 60 \<and> quality r2 = Q_moderate"
proof -
  have a: "0 < altitude (sunAt 30 100)" by (simp add: sunAt_def)
  have f1: "finalProbability 55.75 roundingWeather juneMorning (sunAt 30 100) plainDay =
     Inr (1019223 / 17000)"
    using roundingWeather_final [of 3] unfolding roundingWeather_uvi [symmetric] by simp
  have f2: "finalProbability 55.75 roundingWeatherUp juneMorning (sunAt 30 100) plainDay =
     Inr (5101623 / 85000)"
    using roundingWeather_final [of "3.2"] unfolding roundingWeatherUp_def by simp
  obtain r1 where
    r1: "scoreWithSun 55.75 roundingWeather juneMorning (sunAt 30 100) plainDay = Inr r1"
    using scoreWithSun_wellFormed [OF wf_rounding] by blast
  obtain r2 where
    r2: "scoreWithSun 55.75 roundingWeatherUp juneMorning (sunAt 30 100) plainDay = Inr r2"
    using scoreWithSun_wellFormed [OF wf_roundingUp] by blast
  from scoreWithSun_finalProbability [OF a r1] obtain p where
    p: "finalProbability 55.75 roundingWeather juneMorning (sunAt 30 100) plainDay = Inr p"
      "probability r1 = Math_round (p * 10) / 10"
      "quality r1 = calculateRainbowQuality p (sunAt 30 100) roundingWeather"
    by blast
  have pv: "p = 1019223 / 17000" using p(1) unfolding f1 by simp
  have e1: "probability r1 = 60" unfolding p(2) pv by (rule round_weak)
  have q1: "quality r1 = Q_weak" unfolding p(3) pv calculateRainbowQuality_tier by simp
  from scoreWithSun_finalProbability [OF a r2] obtain p' where
    p': "finalProbability 55.75 roundingWeatherUp juneMorning (sunAt 30 100) plainDay = Inr p'"
      "probability r2 = Math_round (p' * 10) / 10"
      "quality r2 = calculateRainbowQuality p' (sunAt 30 100) roundingWeatherUp"
    by blast
  have pv': "p' = 5101623 / 85000" using p'(1) unfolding f2 by simp
  have e2: "probability r2 = 60" unfolding p'(2) pv' by (rule round_moderate)
  have q2: "quality r2 = Q_moderate" unfolding p'(3) pv' calculateRainbowQuality_tier by simp
  show ?thesis using r1 r2 e1 q1 e2 q2 by blast
qed

subsection \<open>The direction, and the sun of the examples\<close>







section \<open>The claims\<close>

subsection \<open>C1: the sun below the horizon\<close>




subsection \<open>C2: the sun above 42 degrees\<close>

text \<open>
  Claim C2 asks for probability 0 at every altitude above 42 degrees. The sun-angle factor
  is 0 there, but it is one term of a weighted sum and \<open>applyBonusesAndPenalties\<close> does
  not return 0 for a high sun: at 10 degrees north, at noon in May, with the sun 81 degrees
  high in the north and the weather of the specification's scenario, the scorer returns a
  probability of at least 11 together with the critical condition that the sun is too
  high for a rainbow.
\<close>

theorem sun_above_42_scores:
  "(case scoreWithSun 10 idealWeather mayNoon (sunAt 81 0) plainDay of
      Inl e \<Rightarrow> False
    | Inr r \<Rightarrow> 11 \<le> probability r \<and> (Critical, SunTooHighForRainbow) \<in> set (conditions r))"
proof -
  have "42 < altitude (sunAt 81 0)" by (simp add: sunAt_def)
  from above_critical_angle_scores [OF this, of plainDay] show ?thesis by auto
qed

subsection \<open>C3: missing weather data\<close>

text \<open>
  Claim C3, as stated, fails: with no weather object the \<open>try\<close> block throws, the
  \<open>catch\<close> block swallows the exception, and the caller gets an assessment with
  probability 0.
\<close>

theorem missing_weather_returns_zero:
  "tryBlock moscowWithoutWeather = Inl InsufficientData \<and>
   calculateRainbowProbability moscowWithoutWeather = errorResult \<and>
   probability (calculateRainbowProbability moscowWithoutWeather) = 0"
  by (simp add: calculateRainbowProbability_def tryBlock_def moscowWithoutWeather_def
      errorResult_def)

text \<open>
  Claim C3, amended. When the weather object is missing, or when the sun is above the
  horizon, both coordinates are non-zero and the weather object lacks the description of
  its first entry, \<open>main\<close> or \<open>clouds\<close>, the scorer raises no error: it returns the
  fallback assessment, with probability 0, quality \<open>none\<close>, no direction and the
  critical condition that the calculation failed.
\<close>

theorem errors_swallowed:
  assumes "weather c = None \<or>
           (\<exists>w. weather c = Some w \<and> \<not> wellFormed w \<and> latitude c \<noteq> 0 \<and> longitude c \<noteq> 0 \<and>
              0 < altitude (calculateSunPosition (latitude c) (longitude c)
                     (getTime (dateTime c))))"
  shows "calculateRainbowProbability c = errorResult \<and>
         probability (calculateRainbowProbability c) = 0 \<and>
         quality (calculateRainbowProbability c) = Q_none \<and>
         direction (calculateRainbowProbability c) = None \<and>
         conditions (calculateRainbowProbability c) = [(Critical, CalculationError)]"
proof -
  have "calculateRainbowProbability c = errorResult"
    using assms
  proof
    assume "weather c = None"
    then show ?thesis by (simp add: calculateRainbowProbability_def tryBlock_def)
  next
    assume "\<exists>w. weather c = Some w \<and> \<not> wellFormed w \<and> latitude c \<noteq> 0 \<and> longitude c \<noteq> 0 \<and>
              0 < altitude (calculateSunPosition (latitude c) (longitude c)
                     (getTime (dateTime c)))"
    then obtain w where w: "weather c = Some w" "\<not> wellFormed w" "latitude c \<noteq> 0"
      "longitude c \<noteq> 0"
      "0 < altitude (calculateSunPosition (latitude c) (longitude c) (getTime (dateTime c)))"
      by blast
    show ?thesis
      using w(1,3,4) scoreWithSun_not_wellFormed [OF w(5) w(2)]
      by (simp add: calculateRainbowProbability_def tryBlock_def Let_def)
  qed
  then show ?thesis by (simp add: errorResult_def)
qed

text \<open>
  Witness for the amended C3: 89 degrees south at J2000.0 with a weather object without
  \<open>main\<close>, and Moscow without a weather object.
\<close>

theorem errors_swallowed_witness:
  "weather antarcticJanuary = Some weatherWithoutMain \<and> \<not> wellFormed weatherWithoutMain \<and>
   0 < altitude (calculateSunPosition (- 89) 36 j2000Noon) \<and>
   calculateRainbowProbability antarcticJanuary = errorResult \<and>
   weather moscowWithoutWeather = None \<and>
   calculateRainbowProbability moscowWithoutWeather = errorResult"
proof -
  have w: "weather antarcticJanuary = Some weatherWithoutMain" by (simp add: antarcticJanuary_def)
  have nw: "\<not> wellFormed weatherWithoutMain"
    by (simp add: wellFormed_def weatherWithoutMain_def idealWeather_def)
  have al: "0 < altitude (calculateSunPosition (- 89) 36 j2000Noon)"
    by (rule altitude_polar_day)
  have h: "weather antarcticJanuary = None \<or>
           (\<exists>w. weather antarcticJanuary = Some w \<and> \<not> wellFormed w \<and>
              latitude antarcticJanuary \<noteq> 0 \<and> longitude antarcticJanuary \<noteq> 0 \<and>
              0 < altitude (calculateSunPosition (latitude antarcticJanuary)
                     (longitude antarcticJanuary) (getTime (dateTime antarcticJanuary))))"
    using nw al by (simp add: antarcticJanuary_def januaryAfternoon_def)
  have n: "weather moscowWithoutWeather = None" by (simp add: moscowWithoutWeather_def)
  show ?thesis
    using w nw al n errors_swallowed [OF h] errors_swallowed [of moscowWithoutWeather] by simp
qed

subsection \<open>C4: the quality tier\<close>

text \<open>
  Claim C4, as stated, fails: the tier is taken from the probability before it is rounded.
  With the sun 30 degrees high the clamped probability is about 59.954, which is returned
  as 60 with the tier \<open>weak\<close>.
\<close>

theorem tier_of_returned_60_is_weak:
  "probabilityAndQuality
     (scoreWithSun 55.75 roundingWeather juneMorning (sunAt 30 100) plainDay) =
   Some (60, Q_weak)"
proof -
  have alt: "altitude (sunAt 30 100) = 30" by (simp add: sunAt_def)
  have pos: "0 < altitude (sunAt 30 100)" by (simp add: alt)
  have wfs: "calculateWeatherFactors roundingWeather =
     Inr \<lparr>rainFactor = 2 / 5, humidityFactor = 1, cloudFactor = 1,
          visibilityFactor = 1 / 2, windFactor = 1, temperatureFactor = 1,
          recentRainFactor = 1 / 2, sunlightFactor = 1\<rparr>"
    by (simp add: calculateWeatherFactors_def roundingWeather_def firstDescription_def
        lower_clear kw_defs rc_consts numberOrNull_def orDefault_def Let_def)
  have afs: "calculateAtmosphericFactors roundingWeather 55.75 =
     Inr \<lparr>lightScatteringFactor = 3 / 5, pressureFactor = 1, airQualityFactor = 9 / 10\<rparr>"
    by (simp add: calculateAtmosphericFactors_def roundingWeather_def)
  have gfs: "calculateGeometricFactors (sunAt 30 100) roundingWeather =
     Inr \<lparr>geoLightScatteringFactor = 9 / 10, dropletDistributionFactor = 9 / 10,
          airmass = 2\<rparr>"
    by (simp add: calculateGeometricFactors_def roundingWeather_def sunAt_def cos_60 Let_def)
  have tf: "timeOfDayFactor (calculateTimeFactors juneMorning plainDay) = 1"
    "seasonalFactor (calculateTimeFactors juneMorning plainDay) = 1"
    "currentHour (calculateTimeFactors juneMorning plainDay) = 8"
    by (simp_all add: calculateTimeFactors_def juneMorning_def Let_def)
  have ab: "applyBonusesAndPenalties p roundingWeather (sunAt 30 100)
      (calculateTimeFactors juneMorning plainDay) = Inr p" for p
    by (simp add: applyBonusesAndPenalties_def roundingWeather_def sunAt_def
        firstDescription_def ascii_def kw_dozhd_def tf Let_def)
  obtain cs where cs: "analyzeConditions (sunAt 30 100) roundingWeather
      (calculateTimeFactors juneMorning plainDay) = Inr cs"
    using analyzeConditions_wellFormed [OF wf_rounding] by blast
  from scoreWithSun_eval [OF pos wfs afs gfs ab cs]
  obtain r where r: "scoreWithSun 55.75 roundingWeather juneMorning (sunAt 30 100) plainDay = Inr r"
    and p: "probability r =
      Math_round (max 0 (min 100
        (calculateBaseProbability (calculateSunAngleFactor (altitude (sunAt 30 100)))
           \<lparr>rainFactor = 2 / 5, humidityFactor = 1, cloudFactor = 1,
            visibilityFactor = 1 / 2, windFactor = 1, temperatureFactor = 1,
            recentRainFactor = 1 / 2, sunlightFactor = 1\<rparr>
           \<lparr>lightScatteringFactor = 3 / 5, pressureFactor = 1, airQualityFactor = 9 / 10\<rparr> *
         (timeOfDayFactor (calculateTimeFactors juneMorning plainDay) *
          seasonalFactor (calculateTimeFactors juneMorning plainDay)) *
         (geoLightScatteringFactor
            \<lparr>geoLightScatteringFactor = 9 / 10, dropletDistributionFactor = 9 / 10,
             airmass = 2\<rparr> *
          dropletDistributionFactor
            \<lparr>geoLightScatteringFactor = 9 / 10, dropletDistributionFactor = 9 / 10,
             airmass = 2\<rparr>))) * 10) / 10"
    and q: "quality r =
      calculateRainbowQuality (max 0 (min 100
        (calculateBaseProbability (calculateSunAngleFactor (altitude (sunAt 30 100)))
           \<lparr>rainFactor = 2 / 5, humidityFactor = 1, cloudFactor = 1,
            visibilityFactor = 1 / 2, windFactor = 1, temperatureFactor = 1,
            recentRainFactor = 1 / 2, sunlightFactor = 1\<rparr>
           \<lparr>lightScatteringFactor = 3 / 5, pressureFactor = 1, airQualityFactor = 9 / 10\<rparr> *
         (timeOfDayFactor (calculateTimeFactors juneMorning plainDay) *
          seasonalFactor (calculateTimeFactors juneMorning plainDay)) *
         (geoLightScatteringFactor
            \<lparr>geoLightScatteringFactor = 9 / 10, dropletDistributionFactor = 9 / 10,
             airmass = 2\<rparr> *
          dropletDistributionFactor
            \<lparr>geoLightScatteringFactor = 9 / 10, dropletDistributionFactor = 9 / 10,
             airmass = 2\<rparr>)))) (sunAt 30 100) roundingWeather"
    by blast
  have base: "calculateBaseProbability (calculateSunAngleFactor 30)
           \<lparr>rainFactor = 2 / 5, humidityFactor = 1, cloudFactor = 1,
            visibilityFactor = 1 / 2, windFactor = 1, temperatureFactor = 1,
            recentRainFactor = 1 / 2, sunlightFactor = 1\<rparr>
           \<lparr>lightScatteringFactor = 3 / 5, pressureFactor = 1, airQualityFactor = 9 / 10\<rparr>
        = 12583 / 170"
    by (simp add: calculateBaseProbability_def calculateSunAngleFactor_def rc_consts Let_def)
  have "probability r = 60"
    unfolding p alt base tf by (simp add: Math_round_def)
  moreover have "quality r = Q_weak"
    unfolding q alt base tf by (simp add: calculateRainbowQuality_def)
  ultimately show ?thesis unfolding r by (simp add: probabilityAndQuality_def)
qed

text \<open>
  Claim C4, amended. The tier follows the stated thresholds on the clamped probability
  before it is rounded, the value of \<open>finalProbability\<close> after line 89, and the
  returned probability is that value rounded to one decimal; where the scorer returns
  without scoring, from the \<open>catch\<close> block or below the horizon, it returns the literals
  0 and \<open>none\<close>. On the unrounded value the thresholds are exact: 59.9 gives
  \<open>weak\<close> and 60 gives \<open>moderate\<close>. The returned probability does not determine
  the tier: with the sun 30 degrees high, the same place and the same instant, a returned
  60 carries the tier \<open>weak\<close> under one weather object and the tier
  \<open>moderate\<close> under another.
\<close>

theorem quality_before_rounding:
  "(0 < altitude sp \<and> wellFormed w \<longrightarrow>
      (\<exists>p r. finalProbability lat w dt sp ev = Inr p \<and> scoreWithSun lat w dt sp ev = Inr r \<and>
         0 \<le> p \<and> p \<le> 100 \<and>
         probability r = Math_round (p * 10) / 10 \<and>
         quality r =
           (if p < 20 then Q_none else if p < 40 then Q_very_weak else if p < 60 then Q_weak
            else if p < 75 then Q_moderate else if p < 90 then Q_good else Q_excellent))) \<and>
   (calculateRainbowProbability c = errorResult \<or>
    calculateRainbowProbability c = sunBelowHorizonResult (sunOf c) \<or>
    (\<exists>w' p. weather c = Some w' \<and>
       finalProbability (latitude c) w' (dateTime c) (sunOf c) (eventsOf c) = Inr p \<and>
       0 \<le> p \<and> p \<le> 100 \<and>
       probability (calculateRainbowProbability c) = Math_round (p * 10) / 10 \<and>
       quality (calculateRainbowProbability c) =
         (if p < 20 then Q_none else if p < 40 then Q_very_weak else if p < 60 then Q_weak
          else if p < 75 then Q_moderate else if p < 90 then Q_good else Q_excellent))) \<and>
   calculateRainbowQuality 59.9 sp w = Q_weak \<and> calculateRainbowQuality 60 sp w = Q_moderate \<and>
   (\<exists>r1 r2.
      scoreWithSun 55.75 roundingWeather juneMorning (sunAt 30 100) plainDay = Inr r1 \<and>
      scoreWithSun 55.75 roundingWeatherUp juneMorning (sunAt 30 100) plainDay = Inr r2 \<and>
      probability r1 = 60 \<and> quality r1 = Q_weak \<and>
      probability r2 = 60 \<and> quality r2 = Q_moderate)"
proof (intro conjI impI)
  assume a: "0 < altitude sp \<and> wellFormed w"
  then obtain r where r: "scoreWithSun lat w dt sp ev = Inr r"
    using scoreWithSun_wellFormed by blast
  from a have "0 < altitude sp" by simp
  from scoreWithSun_finalProbability [OF this r] obtain p where
    p: "finalProbability lat w dt sp ev = Inr p" "0 \<le> p" "p \<le> 100"
      "probability r = Math_round (p * 10) / 10"
      "quality r = calculateRainbowQuality p sp w"
    by blast
  show "\<exists>p r. finalProbability lat w dt sp ev = Inr p \<and> scoreWithSun lat w dt sp ev = Inr r \<and>
         0 \<le> p \<and> p \<le> 100 \<and>
         probability r = Math_round (p * 10) / 10 \<and>
         quality r =
           (if p < 20 then Q_none else if p < 40 then Q_very_weak else if p < 60 then Q_weak
            else if p < 75 then Q_moderate else if p < 90 then Q_good else Q_excellent)"
    apply (rule exI [of _ p])
    apply (rule exI [of _ r])
    apply (simp add: p r calculateRainbowQuality_tier)
    done
next
  show "calculateRainbowProbability c = errorResult \<or>
    calculateRainbowProbability c = sunBelowHorizonResult (sunOf c) \<or>
    (\<exists>w' p. weather c = Some w' \<and>
       finalProbability (latitude c) w' (dateTime c) (sunOf c) (eventsOf c) = Inr p \<and>
       0 \<le> p \<and> p \<le> 100 \<and>
       probability (calculateRainbowProbability c) = Math_round (p * 10) / 10 \<and>
       quality (calculateRainbowProbability c) =
         (if p < 20 then Q_none else if p < 40 then Q_very_weak else if p < 60 then Q_weak
          else if p < 75 then Q_moderate else if p < 90 then Q_good else Q_excellent))"
  proof (cases "tryBlock c")
    case (Inl e)
    then show ?thesis by (simp add: calculateRainbowProbability_def)
  next
    case (Inr r)
    then have res: "calculateRainbowProbability c = r"
      by (simp add: calculateRainbowProbability_def)
    from tryBlock_Inr [OF Inr] obtain w' where w': "weather c = Some w'" and
      sc: "scoreWithSun (latitude c) w' (dateTime c) (sunOf c) (eventsOf c) = Inr r"
      by blast
    show ?thesis
    proof (cases "altitude (sunOf c) \<le> 0")
      case True
      with sc have "r = sunBelowHorizonResult (sunOf c)" by (simp add: scoreWithSun_def)
      then show ?thesis unfolding res by simp
    next
      case False
      then have "0 < altitude (sunOf c)" by simp
      from scoreWithSun_finalProbability [OF this sc] obtain p where
        p: "finalProbability (latitude c) w' (dateTime c) (sunOf c) (eventsOf c) = Inr p"
          "0 \<le> p" "p \<le> 100"
          "probability r = Math_round (p * 10) / 10"
          "quality r = calculateRainbowQuality p (sunOf c) w'"
        by blast
      have "\<exists>w' p. weather c = Some w' \<and>
         finalProbability (latitude c) w' (dateTime c) (sunOf c) (eventsOf c) = Inr p \<and>
         0 \<le> p \<and> p \<le> 100 \<and>
         probability r = Math_round (p * 10) / 10 \<and>
         quality r =
           (if p < 20 then Q_none else if p < 40 then Q_very_weak else if p < 60 then Q_weak
            else if p < 75 then Q_moderate else if p < 90 then Q_good else Q_excellent)"
        apply (rule exI [of _ w'])
        apply (rule exI [of _ p])
        apply (simp add: p w' calculateRainbowQuality_tier)
        done
      then show ?thesis unfolding res by (rule disjI2 [OF disjI2])
    qed
  qed
next
  show "calculateRainbowQuality 59.9 sp w = Q_weak"
    by (simp add: calculateRainbowQuality_def)
  show "calculateRainbowQuality 60 sp w = Q_moderate"
    by (simp add: calculateRainbowQuality_def)
  show "\<exists>r1 r2.
      scoreWithSun 55.75 roundingWeather juneMorning (sunAt 30 100) plainDay = Inr r1 \<and>
      scoreWithSun 55.75 roundingWeatherUp juneMorning (sunAt 30 100) plainDay = Inr r2 \<and>
      probability r1 = 60 \<and> quality r1 = Q_weak \<and>
      probability r2 = 60 \<and> quality r2 = Q_moderate"
    by (rule rounding_two_tiers)
qed


text \<open>
  Witness for the amended C4: with the sun 30 degrees high, a UV index of 3 gives the
  unrounded 59.954 and a UV index of 3.2 gives 60.019; both are returned as 60, the first
  with the tier \<open>weak\<close>, the second with the tier \<open>moderate\<close>.
\<close>

theorem quality_before_rounding_witness:
  "0 < altitude (sunAt 30 100) \<and> wellFormed roundingWeather \<and> wellFormed roundingWeatherUp \<and>
   finalProbability 55.75 roundingWeather juneMorning (sunAt 30 100) plainDay =
     Inr (1019223 / 17000) \<and>
   probabilityAndQuality
     (scoreWithSun 55.75 roundingWeather juneMorning (sunAt 30 100) plainDay) =
   Some (60, Q_weak) \<and>
   finalProbability 55.75 roundingWeatherUp juneMorning (sunAt 30 100) plainDay =
     Inr (5101623 / 85000) \<and>
   probabilityAndQuality
     (scoreWithSun 55.75 roundingWeatherUp juneMorning (sunAt 30 100) plainDay) =
   Some (60, Q_moderate)"
proof -
  have a: "0 < altitude (sunAt 30 100)" by (simp add: sunAt_def)
  have f1: "finalProbability 55.75 roundingWeather juneMorning (sunAt 30 100) plainDay =
     Inr (1019223 / 17000)"
    using roundingWeather_final [of 3] unfolding roundingWeather_uvi [symmetric] by simp
  have f2: "finalProbability 55.75 roundingWeatherUp juneMorning (sunAt 30 100) plainDay =
     Inr (5101623 / 85000)"
    using roundingWeather_final [of "3.2"] unfolding roundingWeatherUp_def by simp
  have h1: "0 < altitude (sunAt 30 100) \<and> wellFormed roundingWeather"
    using a wf_rounding by simp
  have h2: "0 < altitude (sunAt 30 100) \<and> wellFormed roundingWeatherUp"
    using a wf_roundingUp by simp
  from quality_before_rounding [where sp = "sunAt 30 100" and w = roundingWeather
      and lat = "55.75" and dt = juneMorning and ev = plainDay] h1
  obtain p r where
    fp: "finalProbability 55.75 roundingWeather juneMorning (sunAt 30 100) plainDay = Inr p"
    and sc: "scoreWithSun 55.75 roundingWeather juneMorning (sunAt 30 100) plainDay = Inr r"
    and pr: "probability r = Math_round (p * 10) / 10"
    and qr: "quality r =
       (if p < 20 then Q_none else if p < 40 then Q_very_weak else if p < 60 then Q_weak
        else if p < 75 then Q_moderate else if p < 90 then Q_good else Q_excellent)"
    by blast
  have pv: "p = 1019223 / 17000" using fp unfolding f1 by simp
  have "probability r = 60" unfolding pr pv by (rule round_weak)
  moreover have "quality r = Q_weak" unfolding qr pv by simp
  ultimately have e1: "probabilityAndQuality
     (scoreWithSun 55.75 roundingWeather juneMorning (sunAt 30 100) plainDay) =
     Some (60, Q_weak)"
    unfolding sc by (simp add: probabilityAndQuality_def)
  from quality_before_rounding [where sp = "sunAt 30 100" and w = roundingWeatherUp
      and lat = "55.75" and dt = juneMorning and ev = plainDay] h2
  obtain p' r' where
    fp': "finalProbability 55.75 roundingWeatherUp juneMorning (sunAt 30 100) plainDay = Inr p'"
    and sc': "scoreWithSun 55.75 roundingWeatherUp juneMorning (sunAt 30 100) plainDay = Inr r'"
    and pr': "probability r' = Math_round (p' * 10) / 10"
    and qr': "quality r' =
       (if p' < 20 then Q_none else if p' < 40 then Q_very_weak else if p' < 60 then Q_weak
        else if p' < 75 then Q_moderate else if p' < 90 then Q_good else Q_excellent)"
    by blast
  have pv': "p' = 5101623 / 85000" using fp' unfolding f2 by simp
  have "probability r' = 60" unfolding pr' pv' by (rule round_moderate)
  moreover have "quality r' = Q_moderate" unfolding qr' pv' by simp
  ultimately have e2: "probabilityAndQuality
     (scoreWithSun 55.75 roundingWeatherUp juneMorning (sunAt 30 100) plainDay) =
     Some (60, Q_moderate)"
    unfolding sc' by (simp add: probabilityAndQuality_def)
  show ?thesis using a wf_rounding wf_roundingUp f1 e1 f2 e2 by simp
qed

subsection \<open>C5: the direction\<close>




subsection \<open>C6: the night hours\<close>

text \<open>
  Claim C6. Whenever the local hour of the instant is 22, 23, 0, 1, 2, 3 or 4, the
  returned probability is exactly 0, whatever the weather, the place and the sun.
\<close>

theorem night_lockout:
  assumes "getHours (dateTime c) \<in> {22, 23, 0, 1, 2, 3, 4}"
  shows "probability (calculateRainbowProbability c) = 0"
proof -
  have night: "getHours (dateTime c) \<ge> 22 \<or> getHours (dateTime c) \<le> 4"
    using assms by auto
  consider (err) "calculateRainbowProbability c = errorResult"
    | (ok) r lat w dt sp ev where "scoreWithSun lat w dt sp ev = Inr r"
        "calculateRainbowProbability c = r" "dt = dateTime c"
    using calculateRainbowProbability_cases [of c] by blast
  then show ?thesis
  proof cases
    case err
    then show ?thesis by (simp add: errorResult_def)
  next
    case ok
    from scoreWithSun_cases [OF ok(1)] show ?thesis
    proof
      assume "altitude sp \<le> 0 \<and> r = sunBelowHorizonResult sp"
      then show ?thesis unfolding ok(2) by (simp add: sunBelowHorizonResult_def)
    next
      assume "0 < altitude sp \<and>
          (\<exists>p0 p1. applyBonusesAndPenalties p0 w sp (calculateTimeFactors dt ev) = Inr p1 \<and>
             probability r = Math_round (max 0 (min 100 p1) * 10) / 10 \<and>
             quality r = calculateRainbowQuality (max 0 (min 100 p1)) sp w \<and>
             direction r = Some (calculateRainbowDirection sp))"
      then obtain p0 p1 where
        a: "applyBonusesAndPenalties p0 w sp (calculateTimeFactors dt ev) = Inr p1" and
        p: "probability r = Math_round (max 0 (min 100 p1) * 10) / 10"
        by blast
      have "applyBonusesAndPenalties p0 w sp (calculateTimeFactors dt ev) = Inr 0"
        by (rule applyBonusesAndPenalties_zero)
           (use night ok(3) in \<open>simp add: currentHour_calculateTimeFactors\<close>)
      with a have "p1 = 0" by simp
      then show ?thesis unfolding ok(2) p by (simp add: Math_round_def)
    qed
  qed
qed

text \<open>Witness for C6: Moscow at 23:30 with the weather of the scenario.\<close>

theorem night_lockout_witness:
  "getHours (dateTime moscowLateEvening) \<in> {22, 23, 0, 1, 2, 3, 4} \<and>
   probability (calculateRainbowProbability moscowLateEvening) = 0"
proof -
  have h: "getHours (dateTime moscowLateEvening) \<in> {22, 23, 0, 1, 2, 3, 4}"
    by (simp add: moscowLateEvening_def mayLateEvening_def)
  show ?thesis using h night_lockout [OF h] by simp
qed

subsection \<open>C7: the range of the probability\<close>

text \<open>
  Claim C7. For every input the returned probability lies between 0 and 100 and is a whole
  number of tenths.
\<close>

theorem probability_range:
  "0 \<le> probability (calculateRainbowProbability c) \<and>
   probability (calculateRainbowProbability c) \<le> 100 \<and>
   (\<exists>k::int. probability (calculateRainbowProbability c) = of_int k / 10)"
proof -
  consider (err) "calculateRainbowProbability c = errorResult"
    | (ok) r lat w dt sp ev where "scoreWithSun lat w dt sp ev = Inr r"
        "calculateRainbowProbability c = r"
    using calculateRainbowProbability_cases [of c] by blast
  then show ?thesis
  proof cases
    case err
    have "(0::real) = of_int 0 / 10" by simp
    then show ?thesis unfolding err by (simp add: errorResult_def)
  next
    case ok
    from scoreWithSun_cases [OF ok(1)] show ?thesis
    proof
      assume "altitude sp \<le> 0 \<and> r = sunBelowHorizonResult sp"
      then show ?thesis unfolding ok(2) by (simp add: sunBelowHorizonResult_def)
    next
      assume "0 < altitude sp \<and>
          (\<exists>p0 p1. applyBonusesAndPenalties p0 w sp (calculateTimeFactors dt ev) = Inr p1 \<and>
             probability r = Math_round (max 0 (min 100 p1) * 10) / 10 \<and>
             quality r = calculateRainbowQuality (max 0 (min 100 p1)) sp w \<and>
             direction r = Some (calculateRainbowDirection sp))"
      then obtain p1 where p: "probability r = Math_round (max 0 (min 100 p1) * 10) / 10"
        by blast
      have b: "0 \<le> probability r \<and> probability r \<le> 100"
        unfolding p
        using Math_round_bounds [OF conjunct1 [OF clamp_bounds] conjunct2 [OF clamp_bounds]] .
      have "\<exists>k::int. probability r = of_int k / 10"
        unfolding p Math_round_def by blast
      with b show ?thesis unfolding ok(2) by blast
    qed
  qed
qed

text \<open>Witness for C7: Moscow at 23:30 and Moscow without a weather object.\<close>

theorem probability_range_witness:
  "0 \<le> probability (calculateRainbowProbability moscowLateEvening) \<and>
   probability (calculateRainbowProbability moscowLateEvening) \<le> 100 \<and>
   0 \<le> probability (calculateRainbowProbability moscowWithoutWeather) \<and>
   probability (calculateRainbowProbability moscowWithoutWeather) \<le> 100"
  using probability_range [of moscowLateEvening] probability_range [of moscowWithoutWeather]
  by blast

subsection \<open>C8: the sun-angle factor\<close>

text \<open>
  Claim C8, as stated, fails on the lower ramp: the source computes \<open>0.3 + 0.7 * (a / 15)\<close>,
  a line through 0.3 at 0 degrees, not at 5 degrees. At 10 degrees the factor is 23/30,
  where a ramp from 0.3 at 5 degrees to 1.0 at 15 degrees would give 13/20.
\<close>

theorem sun_angle_factor_at_10:
  "calculateSunAngleFactor 10 = 23 / 30 \<and> specSunAngleFactor 10 = 13 / 20 \<and>
   calculateSunAngleFactor 10 \<noteq> specSunAngleFactor 10"
  by (simp add: calculateSunAngleFactor_def specSunAngleFactor_def rc_consts)

text \<open>
  Claim C8, amended. The sun-angle factor lies between 0 and 1; it is 0 below 5 and above
  42 degrees, \<open>0.3 + 0.7 * altitude / 15\<close> from 5 up to 15 degrees (from 8/15 at 5
  degrees), 1 from 15 to 25 degrees, and \<open>1 - 0.8 * (altitude - 25) / 17\<close> above 25 up to
  42 degrees (down to 0.2 at 42 degrees).
\<close>

theorem sun_angle_factor_piecewise:
  "calculateSunAngleFactor a =
     (if a < 5 \<or> a > 42 then 0
      else if a < 15 then 0.3 + 0.7 * (a / 15)
      else if a \<le> 25 then 1
      else 1 - 0.8 * ((a - 25) / 17)) \<and>
   0 \<le> calculateSunAngleFactor a \<and> calculateSunAngleFactor a \<le> 1"
  by (auto simp add: calculateSunAngleFactor_def rc_consts Let_def)

text \<open>Witness for the amended C8: one altitude in each piece, and the four corners.\<close>

theorem sun_angle_factor_piecewise_witness:
  "calculateSunAngleFactor 3 = 0 \<and> calculateSunAngleFactor 5 = 8 / 15 \<and>
   calculateSunAngleFactor 10 = 23 / 30 \<and> calculateSunAngleFactor 15 = 1 \<and>
   calculateSunAngleFactor 20 = 1 \<and> calculateSunAngleFactor 25 = 1 \<and>
   calculateSunAngleFactor 30 = 13 / 17 \<and> calculateSunAngleFactor 42 = 1 / 5 \<and>
   calculateSunAngleFactor 43 = 0"
  using sun_angle_factor_piecewise [of 3] sun_angle_factor_piecewise [of 5]
    sun_angle_factor_piecewise [of 10] sun_angle_factor_piecewise [of 15]
    sun_angle_factor_piecewise [of 20] sun_angle_factor_piecewise [of 25]
    sun_angle_factor_piecewise [of 30] sun_angle_factor_piecewise [of 42]
    sun_angle_factor_piecewise [of 43]
  by simp

subsection \<open>C9: polar day and polar night\<close>

text \<open>
  Claim C9. Whenever the cosine of the sunrise hour angle is larger than 1 in absolute
  value, \<open>calculateSolarEvents\<close> returns a result with no sunrise and no sunset, and
  exactly one of the two flags set: polar night when the cosine is above 1, polar day when
  it is below \<open>-1\<close>. The cosine is the one that \<open>cosHourAngleOf\<close> computes over
  the real numbers. At a latitude of exactly 90 degrees north or south the tangent of the
  latitude has no value there; \<open>tan (pi / 2)\<close> is 0 in the logic, so that the cosine
  of the model is 0 and the hypothesis fails at the pole, while \<open>Math.tan\<close> returns
  a number of the order of \<open>1.6e16\<close> and the code does return the flagged result.
  The theorem therefore says nothing about the two poles themselves.
\<close>

theorem polar_flagged:
  assumes "1 < \<bar>cosHourAngleOf lat lon date\<bar>"
  shows "sunrise (calculateSolarEvents lat lon date) = None \<and>
         sunset (calculateSolarEvents lat lon date) = None \<and>
         isPolarNight (calculateSolarEvents lat lon date) = (1 < cosHourAngleOf lat lon date) \<and>
         isPolarDay (calculateSolarEvents lat lon date) = (cosHourAngleOf lat lon date < - 1) \<and>
         (isPolarNight (calculateSolarEvents lat lon date) \<noteq>
          isPolarDay (calculateSolarEvents lat lon date))"
  using assms unfolding calculateSolarEvents_def Let_def by auto

text \<open>Witness for C9: 89 degrees north at J2000.0, in the polar night.\<close>

theorem polar_flagged_witness:
  "1 < \<bar>cosHourAngleOf 89 0 j2000Noon\<bar> \<and>
   sunrise (calculateSolarEvents 89 0 j2000Noon) = None \<and>
   sunset (calculateSolarEvents 89 0 j2000Noon) = None \<and>
   isPolarNight (calculateSolarEvents 89 0 j2000Noon) \<and>
   \<not> isPolarDay (calculateSolarEvents 89 0 j2000Noon)"
proof -
  have h: "1 < \<bar>cosHourAngleOf 89 0 j2000Noon\<bar>" using polar_night_j2000 by simp
  show ?thesis using h polar_flagged [OF h] polar_night_j2000 by simp
qed

subsection \<open>C10: a direction next to a probability of 0\<close>




end
